theory Spec2Isabelle
  imports Complex_Main "HOL-Library.Multiset"
begin

section \<open>Data model of the clipping manager (rendering/cubismrenderer\_webgl.ts)\<close>

text \<open>
  JavaScript numbers that the code only compares, copies, adds, multiplies and divides
  are modelled as \<^typ>\<open>real\<close> (exact arithmetic); the elements of an
  \<^verbatim>\<open>Int32Array\<close> and counters are \<^typ>\<open>int\<close> or \<^typ>\<open>nat\<close>.
  A field that the constructor does not assign is \<^verbatim>\<open>undefined\<close> in JavaScript and
  \<^term>\<open>None\<close> here. An object reference to a clipping context is the position of the
  context in \<^verbatim>\<open>_clippingContextListForMask\<close>, the only place where contexts are stored;
  \<^verbatim>\<open>null\<close> is \<^term>\<open>None\<close>. Field names drop the leading underscore of the source.
  The vectors of contexts (class csmVector, not under src/) are lists: \<open>pushBack\<close> appends,
  \<open>at\<close> reads a position, \<open>getSize\<close> is the length.
\<close>

text \<open>
  Reading a JavaScript array or typed array: out of range the value is \<^verbatim>\<open>undefined\<close>.
  The comparison \<^verbatim>\<open>==\<close> of two such reads is equality of the options: a number never
  equals \<^verbatim>\<open>undefined\<close>, and \<^verbatim>\<open>undefined == undefined\<close> holds.
\<close>

definition js_index :: "'a list \<Rightarrow> nat \<Rightarrow> 'a option" where
  "js_index xs i = (if i < length xs then Some (xs ! i) else None)"

text \<open>
  A handle of the graphics context (program, shader, buffer, texture). The code stores
  \<^verbatim>\<open>null\<close> and the number \<^verbatim>\<open>0\<close> for a missing handle and tests handles for truthiness.
\<close>

datatype glref = JsNull | JsZero | GlObject nat

definition isObject :: "glref \<Rightarrow> bool" where
  "isObject r = (case r of GlObject _ \<Rightarrow> True | _ \<Rightarrow> False)"

text \<open>
  Modelled from the spec: the type CubismTextureColor (rendering/cubismrenderer) is not
  under src/; a colour of four components R, G, B, A.
\<close>

record CubismTextureColor =
  col_R :: real
  col_G :: real
  col_B :: real
  col_A :: real

record csmRect =
  rect_x :: real
  rect_y :: real
  rect_width :: real
  rect_height :: real

text \<open>
  Modelled from the spec: the class csmRect (type/csmrectf) is not under src/. The spec
  describes rectangles by origin and extent; \<open>getRight\<close> and \<open>getBottom\<close> are origin plus
  extent, \<open>setRect\<close> copies, and \<open>expand w h\<close> grows the rectangle by the margin \<open>w\<close>, \<open>h\<close>
  on each side. A fresh rectangle is taken as all zero; no theorem below depends on the
  components of a fresh rectangle.
\<close>

definition csmRect_new :: csmRect where
  "csmRect_new = \<lparr>rect_x = 0, rect_y = 0, rect_width = 0, rect_height = 0\<rparr>"

definition getRight :: "csmRect \<Rightarrow> real" where
  "getRight r = rect_x r + rect_width r"

definition getBottom :: "csmRect \<Rightarrow> real" where
  "getBottom r = rect_y r + rect_height r"

definition expand :: "csmRect \<Rightarrow> real \<Rightarrow> real \<Rightarrow> csmRect" where
  "expand r w h =
     \<lparr>rect_x = rect_x r - w, rect_y = rect_y r - h,
      rect_width = rect_width r + w * 2, rect_height = rect_height r + h * 2\<rparr>"

text \<open>
  Modelled from the spec: the class CubismMatrix44 (math/cubismmatrix44) is not under src/.
  The spec treats it as a standard 4x4 linear-algebra utility with translate, scale,
  multiply and toArray. The matrix is its array of 16 numbers in column-major order (the
  layout \<^verbatim>\<open>uniformMatrix4fv\<close> consumes with transpose = false); a fresh matrix is the identity;
  \<open>translateRelative\<close> and \<open>scaleRelative\<close> multiply the current matrix from the right by
  the translation or scaling, that is, the relative transformation is applied to a point
  first.
\<close>

type_synonym CubismMatrix44 = "real list"

definition CubismMatrix44_new :: CubismMatrix44 where
  "CubismMatrix44_new = [1, 0, 0, 0,  0, 1, 0, 0,  0, 0, 1, 0,  0, 0, 0, 1]"

definition multiply :: "real list \<Rightarrow> real list \<Rightarrow> real list" where
  "multiply a b =
     map (\<lambda>idx. let i = idx div 4; j = idx mod 4
                 in (\<Sum>k \<leftarrow> [0..<4]. a ! (k + i * 4) * b ! (j + k * 4)))
         [0..<16]"

definition translateRelative :: "CubismMatrix44 \<Rightarrow> real \<Rightarrow> real \<Rightarrow> CubismMatrix44" where
  "translateRelative tr tx ty =
     multiply [1, 0, 0, 0,  0, 1, 0, 0,  0, 0, 1, 0,  tx, ty, 0, 1] tr"

definition scaleRelative :: "CubismMatrix44 \<Rightarrow> real \<Rightarrow> real \<Rightarrow> CubismMatrix44" where
  "scaleRelative tr sx sy =
     multiply [sx, 0, 0, 0,  0, sy, 0, 0,  0, 0, 1, 0,  0, 0, 0, 1] tr"

text \<open>
  The position a vertex shader computes from a 2D vertex: \<open>u_clipMatrix * a_position\<close>
  with \<open>a_position = (px, py, 0, 1)\<close>; the first two components of the product.
\<close>

definition transformXY :: "CubismMatrix44 \<Rightarrow> real \<times> real \<Rightarrow> real \<times> real" where
  "transformXY m p =
     (m ! 0 * fst p + m ! 4 * snd p + m ! 12,
      m ! 1 * fst p + m ! 5 * snd p + m ! 13)"

record CubismClippingContext =
  isUsing :: "bool option"
  clippingIdList :: "int list"
  clippingIdCount :: int
  layoutChannelNo :: "nat option"
  layoutBounds :: csmRect
  allClippedDrawRect :: csmRect
  matrixForMask :: CubismMatrix44
  matrixForDraw :: CubismMatrix44
  clippedDrawableIndexList :: "nat list"

text \<open>The constructor of CubismClippingContext: \<open>_isUsing\<close> and \<open>_layoutChannelNo\<close> stay unassigned.\<close>

definition CubismClippingContext_new :: "int list \<Rightarrow> int \<Rightarrow> CubismClippingContext" where
  "CubismClippingContext_new clippingDrawableIndices clipCount =
     \<lparr>isUsing = None,
      clippingIdList = clippingDrawableIndices,
      clippingIdCount = clipCount,
      layoutChannelNo = None,
      layoutBounds = csmRect_new,
      allClippedDrawRect = csmRect_new,
      matrixForMask = CubismMatrix44_new,
      matrixForDraw = CubismMatrix44_new,
      clippedDrawableIndexList = []\<rparr>"

definition addClippedDrawable :: "CubismClippingContext \<Rightarrow> nat \<Rightarrow> CubismClippingContext" where
  "addClippedDrawable cc drawableIndex =
     cc\<lparr>clippedDrawableIndexList := clippedDrawableIndexList cc @ [drawableIndex]\<rparr>"

text \<open>
  The manager. The handles of the graphics context that it owns (the mask frame buffer and
  its colour buffer, created on first use by \<open>getMaskRenderTexture\<close>) are not fields of
  this record; the colour buffer that a masked draw binds is a field of the renderer below.
\<close>

record CubismClippingManager_WebGL =
  currentFrameNo :: nat
  channelColors :: "CubismTextureColor list"
  clippingMaskBufferSize :: nat
  clippingContextListForMask :: "CubismClippingContext list"
  clippingContextListForDraw :: "nat option list"

definition CubismClippingManager_WebGL_new :: CubismClippingManager_WebGL where
  "CubismClippingManager_WebGL_new =
     \<lparr>currentFrameNo = 0,
      channelColors =
        [\<lparr>col_R = 1, col_G = 0, col_B = 0, col_A = 0\<rparr>,
         \<lparr>col_R = 0, col_G = 1, col_B = 0, col_A = 0\<rparr>,
         \<lparr>col_R = 0, col_G = 0, col_B = 1, col_A = 0\<rparr>,
         \<lparr>col_R = 0, col_G = 0, col_B = 0, col_A = 1\<rparr>],
      clippingMaskBufferSize = 256,
      clippingContextListForMask = [], clippingContextListForDraw = []\<rparr>"

definition getChannelFlagAsColor ::
  "CubismClippingManager_WebGL \<Rightarrow> nat option \<Rightarrow> CubismTextureColor option" where
  "getChannelFlagAsColor m channelNo =
     (case channelNo of None \<Rightarrow> None | Some c \<Rightarrow> js_index (channelColors m) c)"

section \<open>findSameClip\<close>

text \<open>The inner loop over \<open>k\<close>: is some \<open>drawableMasks[k]\<close>, \<open>k < count\<close>, equal to \<open>clipId\<close>?
  (The source's \<open>count\<close> is written \<open>cnt\<close>.)\<close>

definition hasClipId :: "int list \<Rightarrow> nat \<Rightarrow> int option \<Rightarrow> bool" where
  "hasClipId drawableMasks cnt clipId =
     list_ex (\<lambda>k. js_index drawableMasks k = clipId) [0..<cnt]"

text \<open>The loop over \<open>j\<close>: the number of registered ids found among the queried ones.\<close>

definition sameCount :: "int list \<Rightarrow> int list \<Rightarrow> nat \<Rightarrow> nat" where
  "sameCount ids drawableMasks cnt =
     length (filter (\<lambda>j. hasClipId drawableMasks cnt (js_index ids j)) [0..<cnt])"

fun findSameClip_from ::
  "CubismClippingContext list \<Rightarrow> nat \<Rightarrow> int list \<Rightarrow> int \<Rightarrow> nat option" where
  "findSameClip_from [] i drawableMasks drawableMaskCounts = None"
| "findSameClip_from (clippingContext # rest) i drawableMasks drawableMaskCounts =
     (let cnt = clippingIdCount clippingContext in
      if cnt \<noteq> drawableMaskCounts
      then findSameClip_from rest (Suc i) drawableMasks drawableMaskCounts
      else if int (sameCount (clippingIdList clippingContext) drawableMasks (nat cnt)) = cnt
      then Some i
      else findSameClip_from rest (Suc i) drawableMasks drawableMaskCounts)"

definition findSameClip ::
  "CubismClippingManager_WebGL \<Rightarrow> int list \<Rightarrow> int \<Rightarrow> nat option" where
  "findSameClip m drawableMasks drawableMaskCounts =
     findSameClip_from (clippingContextListForMask m) 0 drawableMasks drawableMaskCounts"

section \<open>initialize\<close>

text \<open>
  The body of the loop of \<open>initialize\<close> for drawable \<open>i\<close> with a positive mask count:
  the context found by \<open>findSameClip\<close>, or a new one appended to the mask list, gets the
  drawable, and the reference to it is appended to the draw list.
\<close>

definition registerClippedDrawable ::
  "CubismClippingManager_WebGL \<Rightarrow> nat \<Rightarrow> int list \<Rightarrow> int \<Rightarrow> CubismClippingManager_WebGL" where
  "registerClippedDrawable m i masks c =
     (case findSameClip m masks c of
        Some r \<Rightarrow>
          m\<lparr>clippingContextListForMask :=
               (clippingContextListForMask m)
                 [r := addClippedDrawable (clippingContextListForMask m ! r) i],
             clippingContextListForDraw := clippingContextListForDraw m @ [Some r]\<rparr>
      | None \<Rightarrow>
          m\<lparr>clippingContextListForMask :=
               clippingContextListForMask m
                 @ [addClippedDrawable (CubismClippingContext_new masks c) i],
             clippingContextListForDraw :=
               clippingContextListForDraw m @ [Some (length (clippingContextListForMask m))]\<rparr>)"

text \<open>
  The loop over the drawables. The arrays of the model hold one entry per drawable; where
  \<open>drawableCount\<close> exceeds an array the read is \<^verbatim>\<open>undefined\<close>, the model does not follow
  the code further and the result is \<^term>\<open>None\<close>. The mask list of a drawable is read
  only when its count is positive.
\<close>

fun initialize_loop ::
  "int list list \<Rightarrow> int list \<Rightarrow> nat list \<Rightarrow> CubismClippingManager_WebGL
     \<Rightarrow> CubismClippingManager_WebGL option" where
  "initialize_loop drawableMasks drawableMaskCounts [] m = Some m"
| "initialize_loop drawableMasks drawableMaskCounts (i # rest) m =
     (case js_index drawableMaskCounts i of
        None \<Rightarrow> None
      | Some c \<Rightarrow>
          if c \<le> 0
          then initialize_loop drawableMasks drawableMaskCounts rest
                 (m\<lparr>clippingContextListForDraw := clippingContextListForDraw m @ [None]\<rparr>)
          else
            (case js_index drawableMasks i of
               None \<Rightarrow> None
             | Some masks \<Rightarrow>
                 initialize_loop drawableMasks drawableMaskCounts rest
                   (registerClippedDrawable m i masks c)))"

definition initialize ::
  "CubismClippingManager_WebGL \<Rightarrow> nat \<Rightarrow> int list list \<Rightarrow> int list
     \<Rightarrow> CubismClippingManager_WebGL option" where
  "initialize m drawableCount drawableMasks drawableMaskCounts =
     initialize_loop drawableMasks drawableMaskCounts [0..<drawableCount] m"

section \<open>calcClippedDrawTotalBounds\<close>

text \<open>
  \<^verbatim>\<open>Number.MAX_VALUE\<close> is the largest finite double and \<^verbatim>\<open>Number.MIN_VALUE\<close> the smallest
  positive one (not the most negative number).
\<close>

definition MAX_VALUE :: real where
  "MAX_VALUE = (2 ^ 53 - 1) * 2 ^ 971"

definition MIN_VALUE :: real where
  "MIN_VALUE = 1 / 2 ^ 1074"

text \<open>
  \<open>Constant.vertexOffset\<close> and \<open>Constant.vertexStep\<close> are declared in live2dcubismframework,
  which is not under src/: they are parameters of the model. The external CubismModel is
  the record of the queries the renderer makes.
\<close>

record Constant =
  vertexOffset :: nat
  vertexStep :: nat

text \<open>
  Modelled from the spec: the enum CubismBlendMode (rendering/cubismrenderer) is not under
  src/; the spec lists the blend modes Normal, Additive and Multiplicative.
\<close>

datatype CubismBlendMode =
  CubismBlendMode_Normal | CubismBlendMode_Additive | CubismBlendMode_Multiplicative

record CubismModel =
  getDrawableCount :: nat
  getDrawableRenderOrders :: "int list"
  getDrawableVertexCount :: "nat \<Rightarrow> nat"
  getDrawableVertices :: "nat \<Rightarrow> real list"
  getDrawableDynamicFlagIsVisible :: "nat \<Rightarrow> bool"
  getDrawableDynamicFlagVertexPositionsDidChange :: "int option \<Rightarrow> bool"

type_synonym bbox = "real \<times> real \<times> real \<times> real"

text \<open>
  One vertex of the inner loop; the box is \<open>(minX, minY, maxX, maxY)\<close>. A read outside the
  vertex array is \<^verbatim>\<open>undefined\<close>, and every comparison with it is false. The loop
  variable \<open>pi\<close> of the source is \<open>pidx\<close>.
\<close>

definition vertexUpdate :: "bbox \<Rightarrow> real option \<Rightarrow> real option \<Rightarrow> bbox" where
  "vertexUpdate b vx vy =
     (case b of (minX, minY, maxX, maxY) \<Rightarrow>
        (let minX' = (case vx of Some v \<Rightarrow> if v < minX then v else minX | None \<Rightarrow> minX);
             maxX' = (case vx of Some v \<Rightarrow> if v > maxX then v else maxX | None \<Rightarrow> maxX);
             minY' = (case vy of Some v \<Rightarrow> if v < minY then v else minY | None \<Rightarrow> minY);
             maxY' = (case vy of Some v \<Rightarrow> if v > maxY then v else maxY | None \<Rightarrow> maxY)
         in (minX', minY', maxX', maxY')))"

function vertexLoop :: "real list \<Rightarrow> nat \<Rightarrow> nat \<Rightarrow> nat \<Rightarrow> bbox \<Rightarrow> bbox" where
  "vertexLoop drawableVertexes drawableVertexCount step pidx b =
     (if pidx < drawableVertexCount * step
      then vertexLoop drawableVertexes drawableVertexCount step (pidx + step)
             (vertexUpdate b (js_index drawableVertexes pidx) (js_index drawableVertexes (pidx + 1)))
      else b)"
  by pat_completeness auto
termination
proof (relation "measure (\<lambda>(vs, n, step, pidx, b). n * step - pidx)")
  show "wf (measure (\<lambda>(vs, n, step, pidx, b). n * step - pidx))"
    by simp
next
  fix drawableVertexes :: "real list" and drawableVertexCount step pidx :: nat and b :: bbox
  assume lt: "pidx < drawableVertexCount * step"
  then have "0 < step"
    by (cases step) simp_all
  with lt show "((drawableVertexes, drawableVertexCount, step, pidx + step,
                  vertexUpdate b (js_index drawableVertexes pidx) (js_index drawableVertexes (pidx + 1))),
                 (drawableVertexes, drawableVertexCount, step, pidx, b))
                \<in> measure (\<lambda>(vs, n, step, pidx, b). n * step - pidx)"
    by simp
qed

text \<open>
  The body of the loop over the clipped drawables. The state is the running total box and
  the context. The final \<^verbatim>\<open>if\<close>/\<^verbatim>\<open>else\<close> that writes the rectangle and \<open>_isUsing\<close> stands
  inside the loop body in the source, after the \<^verbatim>\<open>continue\<close>, and so it does here.
\<close>

definition calcStep ::
  "Constant \<Rightarrow> CubismModel \<Rightarrow> bbox \<times> CubismClippingContext \<Rightarrow> nat
     \<Rightarrow> bbox \<times> CubismClippingContext" where
  "calcStep C model st drawableIndex =
     (case st of ((totalMinX, totalMinY, totalMaxX, totalMaxY), clippingContext) \<Rightarrow>
      (case vertexLoop (getDrawableVertices model drawableIndex)
                       (getDrawableVertexCount model drawableIndex)
                       (vertexStep C) (vertexOffset C)
                       (MAX_VALUE, MAX_VALUE, MIN_VALUE, MIN_VALUE)
       of (minX, minY, maxX, maxY) \<Rightarrow>
         if minX = MAX_VALUE then st
         else
           (let totalMinX' = (if minX < totalMinX then minX else totalMinX);
                totalMinY' = (if minY < totalMinY then minY else totalMinY);
                totalMaxX' = (if maxX > totalMaxX then maxX else totalMaxX);
                totalMaxY' = (if maxY > totalMaxY then maxY else totalMaxY)
            in ((totalMinX', totalMinY', totalMaxX', totalMaxY'),
                (if totalMinX' = MAX_VALUE
                 then clippingContext
                        \<lparr>isUsing := Some False,
                         allClippedDrawRect :=
                           \<lparr>rect_x = 0, rect_y = 0, rect_width = 0, rect_height = 0\<rparr>\<rparr>
                 else clippingContext
                        \<lparr>isUsing := Some True,
                         allClippedDrawRect :=
                           \<lparr>rect_x = totalMinX', rect_y = totalMinY',
                            rect_width = totalMaxX' - totalMinX',
                            rect_height = totalMaxY' - totalMinY'\<rparr>\<rparr>)))))"

definition calcClippedDrawTotalBounds ::
  "Constant \<Rightarrow> CubismModel \<Rightarrow> CubismClippingContext \<Rightarrow> CubismClippingContext" where
  "calcClippedDrawTotalBounds C model clippingContext =
     snd (foldl (calcStep C model)
            ((MAX_VALUE, MAX_VALUE, MIN_VALUE, MIN_VALUE), clippingContext)
            (clippedDrawableIndexList clippingContext))"

section \<open>setupLayoutBounds\<close>

datatype error = TypeError

text \<open>
  \<^verbatim>\<open>this._clippingContextListForMask.at(curClipIndex++)\<close> followed by the writes to the
  context: outside the list the read is \<^verbatim>\<open>undefined\<close> and the first write raises a
  TypeError.
\<close>

definition assignLayout ::
  "CubismClippingContext list \<Rightarrow> nat \<Rightarrow> nat \<Rightarrow> csmRect \<Rightarrow> error + CubismClippingContext list" where
  "assignLayout ccs curClipIndex channelNo r =
     (if curClipIndex < length ccs
      then Inr (ccs[curClipIndex :=
                  (ccs ! curClipIndex)\<lparr>layoutChannelNo := Some channelNo, layoutBounds := r\<rparr>])
      else Inl TypeError)"

text \<open>The rectangle written for the \<open>i\<close>-th context of a channel that lays out \<open>layoutCount\<close> contexts.\<close>

definition layoutRect :: "nat \<Rightarrow> nat \<Rightarrow> csmRect" where
  "layoutRect layoutCount i =
     (if layoutCount = 1
      then \<lparr>rect_x = 0, rect_y = 0, rect_width = 1, rect_height = 1\<rparr>
      else if layoutCount = 2
      then \<lparr>rect_x = real (i mod 2) * 0.5, rect_y = 0, rect_width = 0.5, rect_height = 1\<rparr>
      else if layoutCount \<le> 4
      then \<lparr>rect_x = real (i mod 2) * 0.5, rect_y = real (i div 2) * 0.5,
            rect_width = 0.5, rect_height = 0.5\<rparr>
      else \<lparr>rect_x = real (i mod 3) / 3, rect_y = real (i div 3) / 3,
            rect_width = 1 / 3, rect_height = 1 / 3\<rparr>)"

text \<open>The inner \<^verbatim>\<open>for (let i = 0; i < layoutCount; i++)\<close> loops, from \<open>i\<close> on.\<close>

fun layoutLoop ::
  "nat \<Rightarrow> nat \<Rightarrow> nat list \<Rightarrow> CubismClippingContext list \<times> nat
     \<Rightarrow> error + (CubismClippingContext list \<times> nat)" where
  "layoutLoop channelNo layoutCount [] st = Inr st"
| "layoutLoop channelNo layoutCount (i # is) (ccs, curClipIndex) =
     (case assignLayout ccs curClipIndex channelNo (layoutRect layoutCount i) of
        Inl e \<Rightarrow> Inl e
      | Inr ccs' \<Rightarrow> layoutLoop channelNo layoutCount is (ccs', Suc curClipIndex))"

text \<open>
  One channel. The state is the context list, \<open>curClipIndex\<close> and the error log. A count of
  one writes a single context; two to nine run the loop; more than nine only logs.
\<close>

definition layoutChannel ::
  "nat \<Rightarrow> nat \<Rightarrow> CubismClippingContext list \<times> nat \<times> string list
     \<Rightarrow> error + (CubismClippingContext list \<times> nat \<times> string list)" where
  "layoutChannel channelNo layoutCount st =
     (case st of (ccs, curClipIndex, lg) \<Rightarrow>
       if layoutCount = 0 then Inr st
       else if layoutCount = 1 then
         (case assignLayout ccs curClipIndex channelNo (layoutRect 1 0) of
            Inl e \<Rightarrow> Inl e
          | Inr ccs' \<Rightarrow> Inr (ccs', Suc curClipIndex, lg))
       else if layoutCount \<le> 9 then
         (case layoutLoop channelNo layoutCount [0..<layoutCount] (ccs, curClipIndex) of
            Inl e \<Rightarrow> Inl e
          | Inr (ccs', cur') \<Rightarrow> Inr (ccs', cur', lg))
       else Inr (ccs, curClipIndex, lg @ [''not supported mask count : {0}'']))"

definition ColorChannelCount :: nat where
  "ColorChannelCount = 4"

fun channelLoop ::
  "nat \<Rightarrow> nat \<Rightarrow> nat list \<Rightarrow> CubismClippingContext list \<times> nat \<times> string list
     \<Rightarrow> error + (CubismClippingContext list \<times> nat \<times> string list)" where
  "channelLoop dv md [] st = Inr st"
| "channelLoop dv md (channelNo # rest) st =
     (case layoutChannel channelNo (dv + (if channelNo < md then 1 else 0)) st of
        Inl e \<Rightarrow> Inl e
      | Inr st' \<Rightarrow> channelLoop dv md rest st')"

text \<open>The result is the context list and the error log (\<open>div\<close>, \<open>mod\<close> of the source are \<open>dv\<close>, \<open>md\<close>).\<close>

definition setupLayoutBounds ::
  "CubismClippingContext list \<Rightarrow> nat
     \<Rightarrow> error + (CubismClippingContext list \<times> string list)" where
  "setupLayoutBounds ccs usingClipCount =
     (let dv = usingClipCount div ColorChannelCount;
          md = usingClipCount mod ColorChannelCount
      in case channelLoop dv md [0..<ColorChannelCount] (ccs, 0, []) of
           Inl e \<Rightarrow> Inl e
         | Inr (ccs', cur', lg) \<Rightarrow> Inr (ccs', lg))"

section \<open>setupClippingContext\<close>

text \<open>
  The matrices of one context: \<open>calcMatrix\<close> with and without the preprocessing that maps
  the layout square \<open>0..1\<close> to \<open>-1..1\<close>. A division by zero gives Infinity or NaN in
  JavaScript and \<open>0\<close> in HOL: the model is the program only for a rectangle of non-zero
  width and height.
\<close>

definition MARGIN :: real where
  "MARGIN = 0.05"

definition boundsOnModel :: "CubismClippingContext \<Rightarrow> csmRect" where
  "boundsOnModel clipContext =
     expand (allClippedDrawRect clipContext)
       (rect_width (allClippedDrawRect clipContext) * MARGIN)
       (rect_height (allClippedDrawRect clipContext) * MARGIN)"

definition calcMatrix :: "CubismClippingContext \<Rightarrow> CubismMatrix44 \<Rightarrow> CubismMatrix44" where
  "calcMatrix clipContext preProcessed =
     (let layoutBoundsOnTex01 = layoutBounds clipContext;
          bounds = boundsOnModel clipContext;
          scaleX = rect_width layoutBoundsOnTex01 / rect_width bounds;
          scaleY = rect_height layoutBoundsOnTex01 / rect_height bounds;
          m1 = translateRelative preProcessed (rect_x layoutBoundsOnTex01) (rect_y layoutBoundsOnTex01);
          m2 = scaleRelative m1 scaleX scaleY
      in translateRelative m2 (- rect_x bounds) (- rect_y bounds))"

definition setupMatrices :: "CubismClippingContext \<Rightarrow> CubismClippingContext" where
  "setupMatrices clipContext =
     clipContext
       \<lparr>matrixForMask :=
          calcMatrix clipContext
            (scaleRelative (translateRelative CubismMatrix44_new (- 1) (- 1)) 2 2),
        matrixForDraw := calcMatrix clipContext CubismMatrix44_new\<rparr>"

text \<open>
  The mask draws of one context: the ids \<open>_clippingIdList[i]\<close>, \<open>i < _clippingIdCount\<close>, whose
  vertex positions changed, each passed to \<open>drawMesh\<close> with this context as the mask buffer.
\<close>

definition maskDraws :: "CubismModel \<Rightarrow> nat \<Rightarrow> CubismClippingContext \<Rightarrow> (nat \<times> int option) list" where
  "maskDraws model clipIndex clipContext =
     map (\<lambda>clipDrawIndex. (clipIndex, clipDrawIndex))
       (filter (getDrawableDynamicFlagVertexPositionsDidChange model)
          (map (js_index (clippingIdList clipContext)) [0..<nat (clippingIdCount clipContext)]))"

definition truthy :: "bool option \<Rightarrow> bool" where
  "truthy b = (b = Some True)"

text \<open>
  The state part of \<open>setupClippingContext\<close>: the frame number, the bounds and in-use flags,
  the layout, the matrices, and the list of mask draws handed to \<open>drawMesh\<close> (pairs of the
  context and the drawable). The commands sent to the graphics context (viewport, frame
  buffer, clear, \<open>preDraw\<close>, \<open>getMaskRenderTexture\<close>) are not part of this state, and what
  \<open>drawMesh\<close> does with a mask draw is modelled with \<open>drawMesh\<close> below, not here: the
  result is the state the function leaves when every mask draw returns.
\<close>

definition setupClippingContext ::
  "Constant \<Rightarrow> CubismModel \<Rightarrow> CubismClippingManager_WebGL
     \<Rightarrow> error + (CubismClippingManager_WebGL \<times> (nat \<times> int option) list \<times> string list)" where
  "setupClippingContext C model m =
     (let ccs1 = map (calcClippedDrawTotalBounds C model) (clippingContextListForMask m);
          usingClipCount = length (filter (\<lambda>cc. truthy (isUsing cc)) ccs1);
          m1 = m\<lparr>currentFrameNo := Suc (currentFrameNo m), clippingContextListForMask := ccs1\<rparr>
      in if usingClipCount > 0 then
           (case setupLayoutBounds ccs1 usingClipCount of
              Inl e \<Rightarrow> Inl e
            | Inr (ccs2, lg) \<Rightarrow>
                (let ccs3 = map setupMatrices ccs2
                 in Inr (m1\<lparr>clippingContextListForMask := ccs3\<rparr>,
                         concat (map (\<lambda>(clipIndex, cc). maskDraws model clipIndex cc)
                                   (zip [0..<length ccs3] ccs3)),
                         lg)))
         else Inr (m1, [], []))"

section \<open>doDrawModel: the screen pass\<close>

text \<open>
  Modelled from the spec: the class csmVector (type/csmvector) is not under src/. It is an
  indexable list: \<open>at\<close> reads a slot and \<open>set\<close> writes one. A write whose index is not a
  slot of the list (negative, beyond the end, or \<^verbatim>\<open>undefined\<close>) changes none of the slots.
  \<open>resize n v\<close> on the empty vector of a fresh renderer gives \<open>n\<close> slots holding \<open>v\<close>.
\<close>

definition csmVector_set :: "'a list \<Rightarrow> int option \<Rightarrow> 'a \<Rightarrow> 'a list" where
  "csmVector_set v idx val =
     (case idx of
        None \<Rightarrow> v
      | Some k \<Rightarrow> if 0 \<le> k \<and> k < int (length v) then v[nat k := val] else v)"

definition csmVector_resize_new :: "nat \<Rightarrow> 'a \<Rightarrow> 'a list" where
  "csmVector_resize_new n v = replicate n v"

text \<open>The first loop of the screen pass: \<open>_sortedDrawableIndexList.set(renderOrder[i], i)\<close>.\<close>

definition sortDrawableIndexList :: "CubismModel \<Rightarrow> nat list \<Rightarrow> nat list" where
  "sortDrawableIndexList model sortedDrawableIndexList =
     foldl (\<lambda>v i. csmVector_set v (js_index (getDrawableRenderOrders model) i) i)
       sortedDrawableIndexList [0..<getDrawableCount model]"

text \<open>
  The second loop: the drawable indices for which \<open>drawMesh\<close> is called, in the order of the
  calls. A read outside the vector is \<^verbatim>\<open>undefined\<close>; what the external model answers for
  it is not modelled, and the result is \<^term>\<open>None\<close>.
\<close>

fun drawLoop :: "CubismModel \<Rightarrow> nat list \<Rightarrow> nat list \<Rightarrow> nat list option" where
  "drawLoop model v [] = Some []"
| "drawLoop model v (i # is) =
     (case js_index v i of
        None \<Rightarrow> None
      | Some drawableIndex \<Rightarrow>
          (case drawLoop model v is of
             None \<Rightarrow> None
           | Some rest \<Rightarrow>
               if \<not> getDrawableDynamicFlagIsVisible model drawableIndex then Some rest
               else Some (drawableIndex # rest)))"

definition screenPass :: "CubismModel \<Rightarrow> nat list \<Rightarrow> (nat list \<times> nat list) option" where
  "screenPass model sortedDrawableIndexList =
     (let v = sortDrawableIndexList model sortedDrawableIndexList
      in case drawLoop model v [0..<getDrawableCount model] of
           None \<Rightarrow> None
         | Some draws \<Rightarrow> Some (v, draws))"

section \<open>The shader programs (CubismShader\_WebGL)\<close>

text \<open>
  The graphics context is external: the field \<open>gl\<close>, declared as a
  \<open>WebGLRenderingContext\<close>. The model records the commands and queries the code sends to
  it, in order, and hands out a fresh handle for every object the code creates. What the
  driver answers is a parameter: whether a creation returns an object, whether a shader
  source compiles, whether a pair of shaders links. \<open>CubismLogError\<close> writes to the
  console; every function returns the messages it logs, in order.
\<close>

datatype GLshaderType = VERTEX_SHADER | FRAGMENT_SHADER

datatype ShaderSrc =
  vertexShaderSrcSetupMask | fragmentShaderSrcsetupMask
  | vertexShaderSrc | vertexShaderSrcMasked
  | fragmentShaderSrcPremultipliedAlpha
  | fragmentShaderSrcMaskPremultipliedAlpha
  | fragmentShaderSrcMaskInvertedPremultipliedAlpha

datatype GLblend = ZERO | ONE | ONE_MINUS_SRC_COLOR | ONE_MINUS_SRC_ALPHA | DST_COLOR

datatype GLtarget = ARRAY_BUFFER | ELEMENT_ARRAY_BUFFER

text \<open>The answer of \<open>getAttribLocation\<close> or \<open>getUniformLocation\<close>, named by the query.\<close>

datatype GLlocation = Location glref string

datatype BufferContents = FloatData "real list" | IndexData "nat list"

datatype GLcall =
  CreateProgram glref
  | CreateShader GLshaderType glref
  | ShaderSource glref ShaderSrc
  | CompileShader glref
  | GetShaderInfoLog glref
  | GetShaderParameter glref
  | DeleteShader glref
  | AttachShader glref glref
  | LinkProgram glref
  | GetProgramParameter glref
  | DeleteProgram glref
  | GetAttribLocation glref string
  | GetUniformLocation glref string
  | UseProgram glref
  | CreateBuffer glref
  | BindBuffer GLtarget glref
  | BufferData GLtarget BufferContents
  | EnableVertexAttribArray GLlocation
  | VertexAttribPointer GLlocation
  | ActiveTexture nat
  | BindTexture glref
  | Uniform1i "GLlocation option" int
  | BlendFuncSeparate GLblend GLblend GLblend GLblend
  | UniformMatrix4fv "GLlocation option" "real list"
  | Uniform4f "GLlocation option" real real real real
  | EnableCullFace
  | DisableCullFace
  | FrontFaceCCW
  | DrawElements nat

record GLdriver =
  createOk :: "nat \<Rightarrow> bool"
  compileStatus :: "GLshaderType \<Rightarrow> ShaderSrc \<Rightarrow> bool"
  linkStatus :: "ShaderSrc \<Rightarrow> ShaderSrc \<Rightarrow> bool"

record GL =
  calls :: "GLcall list"
  nextObject :: nat

text \<open>
  The arguments a \<open>WebGLRenderingContext\<close> accepts, by the declaration of its operations.
  Where an operation declares a shader or a program, the argument has to be such an
  object; where it declares a nullable object (\<open>useProgram\<close>, \<open>deleteShader\<close>,
  \<open>deleteProgram\<close>, \<open>bindBuffer\<close>, \<open>bindTexture\<close>), \<^verbatim>\<open>null\<close> and \<^verbatim>\<open>undefined\<close> are accepted
  as well. Any other argument, the number \<open>0\<close> among them, makes the call raise a
  TypeError before the context sees the command. Locations and numbers are not checked.
\<close>

fun accepts :: "GLcall \<Rightarrow> bool" where
  "accepts (ShaderSource shader src) = isObject shader"
| "accepts (CompileShader shader) = isObject shader"
| "accepts (GetShaderInfoLog shader) = isObject shader"
| "accepts (GetShaderParameter shader) = isObject shader"
| "accepts (AttachShader program shader) = (isObject program \<and> isObject shader)"
| "accepts (LinkProgram program) = isObject program"
| "accepts (GetProgramParameter program) = isObject program"
| "accepts (GetAttribLocation program name) = isObject program"
| "accepts (GetUniformLocation program name) = isObject program"
| "accepts (DeleteShader shader) = (shader \<noteq> JsZero)"
| "accepts (DeleteProgram program) = (program \<noteq> JsZero)"
| "accepts (UseProgram program) = (program \<noteq> JsZero)"
| "accepts (BindBuffer target buffer) = (buffer \<noteq> JsZero)"
| "accepts (BindTexture texture) = (texture \<noteq> JsZero)"
| "accepts _ = True"

text \<open>\<open>emit\<close> records commands; \<open>send\<close> sends them one by one and stops at the first that raises.\<close>

definition emit :: "GLcall list \<Rightarrow> GL \<Rightarrow> GL" where
  "emit cs gl = gl\<lparr>calls := calls gl @ cs\<rparr>"

fun send :: "GLcall list \<Rightarrow> GL \<Rightarrow> error option \<times> GL" where
  "send [] gl = (None, gl)"
| "send (c # cs) gl = (if accepts c then send cs (emit [c] gl) else (Some TypeError, gl))"

definition fresh :: "GLdriver \<Rightarrow> GL \<Rightarrow> glref \<times> GL" where
  "fresh d gl =
     (if createOk d (nextObject gl) then GlObject (nextObject gl) else JsNull,
      gl\<lparr>nextObject := Suc (nextObject gl)\<rparr>)"

text \<open>
  The outcome of a function that talks to the context: the error raised or the value
  returned, the context as the function leaves it, and the messages logged. An error
  raised keeps the commands sent and the messages logged before it.
\<close>

type_synonym 'a run = "(error + 'a) \<times> GL \<times> string list"

definition sendThen :: "GLcall list \<Rightarrow> GL \<Rightarrow> (GL \<Rightarrow> 'a run) \<Rightarrow> 'a run" where
  "sendThen cs gl k =
     (case send cs gl of
        (Some e, gl') \<Rightarrow> (Inl e, gl', [])
      | (None, gl') \<Rightarrow> k gl')"

definition bindRun :: "'a run \<Rightarrow> ('a \<Rightarrow> GL \<Rightarrow> 'b run) \<Rightarrow> 'b run" where
  "bindRun r k =
     (case r of
        (Inl e, gl, msgs) \<Rightarrow> (Inl e, gl, msgs)
      | (Inr a, gl, msgs) \<Rightarrow> (case k a gl of (res, gl', msgs') \<Rightarrow> (res, gl', msgs @ msgs')))"

text \<open>\<open>CubismLogError\<close> as a step of its own: the message stays logged whatever follows.\<close>

definition CubismLogError :: "string \<Rightarrow> GL \<Rightarrow> unit run" where
  "CubismLogError msg gl = (Inr (), gl, [msg])"

record CubismShaderSet =
  shaderProgram :: glref
  attributePositionLocation :: GLlocation
  attributeTexCoordLocation :: GLlocation
  samplerTexture0Location :: GLlocation
  uniformBaseColorLocation :: GLlocation
  uniformMatrixLocation :: "GLlocation option"
  uniformClipMatrixLocation :: "GLlocation option"
  samplerTexture1Location :: "GLlocation option"
  uniformChannelFlagLocation :: "GLlocation option"

datatype ShaderNames =
  SetupMask
  | NormalPremultipliedAlpha
  | NormalMaskedPremultipliedAlpha
  | NomralMaskedInvertedPremultipliedAlpha
  | AddPremultipliedAlpha
  | AddMaskedPremultipliedAlpha
  | AddMaskedPremultipliedAlphaInverted
  | MultPremultipliedAlpha
  | MultMaskedPremultipliedAlpha
  | MultMaskedPremultipliedAlphaInverted

text \<open>The numbers of the TypeScript enum, and the enum's members in the order of their numbers.\<close>

fun ShaderNames_value :: "ShaderNames \<Rightarrow> nat" where
  "ShaderNames_value SetupMask = 0"
| "ShaderNames_value NormalPremultipliedAlpha = 1"
| "ShaderNames_value NormalMaskedPremultipliedAlpha = 2"
| "ShaderNames_value NomralMaskedInvertedPremultipliedAlpha = 3"
| "ShaderNames_value AddPremultipliedAlpha = 4"
| "ShaderNames_value AddMaskedPremultipliedAlpha = 5"
| "ShaderNames_value AddMaskedPremultipliedAlphaInverted = 6"
| "ShaderNames_value MultPremultipliedAlpha = 7"
| "ShaderNames_value MultMaskedPremultipliedAlpha = 8"
| "ShaderNames_value MultMaskedPremultipliedAlphaInverted = 9"

definition ShaderNames_keys :: "ShaderNames list" where
  "ShaderNames_keys =
     [SetupMask,
      NormalPremultipliedAlpha, NormalMaskedPremultipliedAlpha,
      NomralMaskedInvertedPremultipliedAlpha,
      AddPremultipliedAlpha, AddMaskedPremultipliedAlpha, AddMaskedPremultipliedAlphaInverted,
      MultPremultipliedAlpha, MultMaskedPremultipliedAlpha,
      MultMaskedPremultipliedAlphaInverted]"

record CubismShader_WebGL =
  shaderSets :: "(nat \<Rightarrow> CubismShaderSet option) option"

text \<open>
  \<open>compileShaderSource\<close>. When \<open>createShader\<close> answers \<^verbatim>\<open>null\<close>, the call of \<open>shaderSource\<close>
  that follows raises; the block under \<^verbatim>\<open>if (!shader)\<close> is written out as the source has
  it.
\<close>

definition compileShaderSource ::
  "GLdriver \<Rightarrow> GL \<Rightarrow> GLshaderType \<Rightarrow> ShaderSrc \<Rightarrow> glref run" where
  "compileShaderSource d gl shaderType shaderSource =
     (case fresh d gl of (shader, gl0) \<Rightarrow>
      sendThen [CreateShader shaderType shader, ShaderSource shader shaderSource,
                CompileShader shader] gl0 (\<lambda>gl1.
      bindRun (if \<not> isObject shader
               then sendThen [GetShaderInfoLog shader] gl1
                      (CubismLogError ''Shader compile log: {0} '')
               else (Inr (), gl1, [])) (\<lambda>_ gl2.
      sendThen [GetShaderParameter shader] gl2 (\<lambda>gl3.
      if \<not> compileStatus d shaderType shaderSource
      then sendThen [DeleteShader shader] gl3 (\<lambda>gl4. (Inr JsNull, gl4, []))
      else (Inr shader, gl3, [])))))"

definition loadShaderProgram ::
  "GLdriver \<Rightarrow> GL \<Rightarrow> ShaderSrc \<Rightarrow> ShaderSrc \<Rightarrow> glref run" where
  "loadShaderProgram d gl vertexShaderSource fragmentShaderSource =
     (case fresh d gl of (shaderProgram0, gl0) \<Rightarrow>
      bindRun (compileShaderSource d (emit [CreateProgram shaderProgram0] gl0)
                 VERTEX_SHADER vertexShaderSource) (\<lambda>vertShader gl1.
      if \<not> isObject vertShader
      then (Inr JsZero, gl1, [''Vertex shader compile error!''])
      else
      bindRun (compileShaderSource d gl1 FRAGMENT_SHADER fragmentShaderSource) (\<lambda>fragShader gl2.
      if \<not> isObject fragShader
      then (Inr JsZero, gl2, [''Vertex shader compile error!''])
      else
      sendThen [AttachShader shaderProgram0 vertShader, AttachShader shaderProgram0 fragShader,
                LinkProgram shaderProgram0, GetProgramParameter shaderProgram0] gl2 (\<lambda>gl3.
      if \<not> linkStatus d vertexShaderSource fragmentShaderSource
      then bindRun (CubismLogError ''Failed to link program: {0}'' gl3) (\<lambda>_ gl4.
           sendThen ([DeleteShader vertShader, DeleteShader fragShader]
                     @ (if isObject shaderProgram0 then [DeleteProgram shaderProgram0] else []))
             gl4 (\<lambda>gl5. (Inr JsZero, gl5, [])))
      else sendThen [DeleteShader vertShader, DeleteShader fragShader] gl3
             (\<lambda>gl4. (Inr shaderProgram0, gl4, []))))))"

text \<open>
  The closure \<open>commonShaderSet\<close> of \<open>generateShaders\<close>: four queries on the program, in the
  order of the object literal.
\<close>

definition commonShaderSet :: "GL \<Rightarrow> glref \<Rightarrow> CubismShaderSet run" where
  "commonShaderSet gl prog =
     sendThen [GetAttribLocation prog ''a_position'', GetAttribLocation prog ''a_texCoord'',
               GetUniformLocation prog ''s_texture0'', GetUniformLocation prog ''u_baseColor'']
       gl (\<lambda>gl'.
     (Inr \<lparr>shaderProgram = prog,
           attributePositionLocation = Location prog ''a_position'',
           attributeTexCoordLocation = Location prog ''a_texCoord'',
           samplerTexture0Location = Location prog ''s_texture0'',
           uniformBaseColorLocation = Location prog ''u_baseColor'',
           uniformMatrixLocation = None,
           uniformClipMatrixLocation = None,
           samplerTexture1Location = None,
           uniformChannelFlagLocation = None\<rparr>, gl', []))"

definition isInvertedShader :: "ShaderNames \<Rightarrow> bool" where
  "isInvertedShader shaderName =
     (shaderName = NomralMaskedInvertedPremultipliedAlpha
      \<or> shaderName = AddMaskedPremultipliedAlphaInverted
      \<or> shaderName = MultMaskedPremultipliedAlphaInverted)"

text \<open>
  One step of the \<open>reduce\<close> in \<open>generateShaders\<close>: the shader set of one enum member. The
  program is loaded, then \<open>commonShaderSet\<close> and the further queries of the case are sent.
\<close>

definition generateShader :: "GLdriver \<Rightarrow> ShaderNames \<Rightarrow> GL \<Rightarrow> CubismShaderSet run" where
  "generateShader d index gl =
     (if index = SetupMask then
        bindRun (loadShaderProgram d gl vertexShaderSrcSetupMask fragmentShaderSrcsetupMask)
          (\<lambda>prog gl1.
        bindRun (commonShaderSet gl1 prog) (\<lambda>common gl2.
        sendThen [GetUniformLocation prog ''u_clipMatrix'',
                  GetUniformLocation prog ''u_channelFlag''] gl2 (\<lambda>gl3.
        (Inr (common
                \<lparr>uniformClipMatrixLocation := Some (Location prog ''u_clipMatrix''),
                 uniformChannelFlagLocation := Some (Location prog ''u_channelFlag'')\<rparr>),
         gl3, []))))
      else if index = NormalPremultipliedAlpha \<or> index = AddPremultipliedAlpha
              \<or> index = MultPremultipliedAlpha then
        bindRun (loadShaderProgram d gl vertexShaderSrc fragmentShaderSrcPremultipliedAlpha)
          (\<lambda>prog gl1.
        bindRun (commonShaderSet gl1 prog) (\<lambda>common gl2.
        sendThen [GetUniformLocation prog ''u_matrix''] gl2 (\<lambda>gl3.
        (Inr (common\<lparr>uniformMatrixLocation := Some (Location prog ''u_matrix'')\<rparr>),
         gl3, []))))
      else
        bindRun (loadShaderProgram d gl vertexShaderSrcMasked
                   (if isInvertedShader index
                    then fragmentShaderSrcMaskInvertedPremultipliedAlpha
                    else fragmentShaderSrcMaskPremultipliedAlpha))
          (\<lambda>prog gl1.
        bindRun (commonShaderSet gl1 prog) (\<lambda>common gl2.
        sendThen [GetUniformLocation prog ''s_texture1'', GetUniformLocation prog ''u_matrix'',
                  GetUniformLocation prog ''u_clipMatrix'',
                  GetUniformLocation prog ''u_channelFlag''] gl2 (\<lambda>gl3.
        (Inr (common
                \<lparr>uniformMatrixLocation := Some (Location prog ''u_matrix''),
                 uniformClipMatrixLocation := Some (Location prog ''u_clipMatrix''),
                 samplerTexture1Location := Some (Location prog ''s_texture1''),
                 uniformChannelFlagLocation := Some (Location prog ''u_channelFlag'')\<rparr>),
         gl3, [])))))"

text \<open>
  The \<open>reduce\<close> of \<open>generateShaders\<close> over the enum members. When a step raises, the
  \<open>reduce\<close> is left and nothing is assigned to \<open>_shaderSets\<close>.
\<close>

fun generateShaders_from ::
  "GLdriver \<Rightarrow> ShaderNames list \<Rightarrow> (nat \<Rightarrow> CubismShaderSet option) \<Rightarrow> GL
     \<Rightarrow> (nat \<Rightarrow> CubismShaderSet option) run" where
  "generateShaders_from d [] acc gl = (Inr acc, gl, [])"
| "generateShaders_from d (index # rest) acc gl =
     (case generateShader d index gl of
        (Inl e, gl', msgs) \<Rightarrow> (Inl e, gl', msgs)
      | (Inr shaderSet, gl', msgs) \<Rightarrow>
          (case generateShaders_from d rest (acc(ShaderNames_value index \<mapsto> shaderSet)) gl' of
             (res, gl'', msgs') \<Rightarrow> (res, gl'', msgs @ msgs')))"

definition generateShaders :: "GLdriver \<Rightarrow> GL \<Rightarrow> (nat \<Rightarrow> CubismShaderSet option) run" where
  "generateShaders d gl = generateShaders_from d ShaderNames_keys Map.empty gl"

text \<open>
  The closure \<open>shaderContent\<close> of \<open>setupShaderProgram\<close>: the key of the shader set in
  \<open>_shaderSets\<close> and the blend tuple (SRC\_COLOR, DST\_COLOR, SRC\_ALPHA, DST\_ALPHA).
\<close>

definition shaderContent ::
  "bool \<Rightarrow> bool \<Rightarrow> bool \<Rightarrow> CubismBlendMode \<Rightarrow> nat \<times> GLblend \<times> GLblend \<times> GLblend \<times> GLblend" where
  "shaderContent setupMask forMasked invertedMask colorBlendMode =
     (if setupMask
      then (ShaderNames_value SetupMask, ZERO, ONE_MINUS_SRC_COLOR, ZERO, ONE_MINUS_SRC_ALPHA)
      else
        (let shaderNameOffset = (if forMasked then (if invertedMask then 2 else 1) else 0) in
         case colorBlendMode of
           CubismBlendMode_Normal \<Rightarrow>
             (ShaderNames_value NormalPremultipliedAlpha + shaderNameOffset,
              ONE, ONE_MINUS_SRC_ALPHA, ONE, ONE_MINUS_SRC_ALPHA)
         | CubismBlendMode_Additive \<Rightarrow>
             (ShaderNames_value AddPremultipliedAlpha + shaderNameOffset,
              ONE, ONE, ZERO, ONE)
         | CubismBlendMode_Multiplicative \<Rightarrow>
             (ShaderNames_value MultPremultipliedAlpha + shaderNameOffset,
              DST_COLOR, ONE_MINUS_SRC_ALPHA, ZERO, ONE)))"

text \<open>
  Modelled from the spec: the base class CubismRenderer (rendering/cubismrenderer) is not
  under src/. Its getters used by \<open>drawMesh\<close> are fields of the renderer: the culling flag,
  the model colour (read as a copy), the premultiplied-alpha flag and the
  model-view-projection matrix. The renderer holds the clipping contexts it draws with by
  value: the shader only reads them. The owner of such a context is the clipping manager
  of the renderer; \<open>getColorBuffer\<close> is the handle that the owner answers for its colour
  buffer when the draw reads it.
\<close>

record BufferDataRec =
  buf_vertex :: glref
  buf_uv :: glref
  buf_index :: glref

record CubismRenderer_WebGL =
  isCulling :: bool
  getModelColor :: CubismTextureColor
  isPremultipliedAlpha :: bool
  getMvpMatrix :: CubismMatrix44
  textures :: "nat \<Rightarrow> glref option"
  clippingManager :: CubismClippingManager_WebGL
  getColorBuffer :: glref
  clippingContextBufferForMask :: "CubismClippingContext option"
  clippingContextBufferForDraw :: "CubismClippingContext option"
  bufferData :: BufferDataRec

text \<open>
  The statements of \<open>setupShaderProgram\<close> after the shader set is selected work on the
  context and on the object \<open>bufferData\<close>, which they update in place. A statement either
  raises, leaving both as they are at that point, or completes; \<open>steps\<close> runs statements
  in order up to the first that raises.
\<close>

type_synonym drawState = "GL \<times> BufferDataRec"

fun steps :: "('s \<Rightarrow> error option \<times> 's) list \<Rightarrow> 's \<Rightarrow> error option \<times> 's" where
  "steps [] s = (None, s)"
| "steps (f # fs) s =
     (case f s of
        (Some e, s') \<Rightarrow> (Some e, s')
      | (None, s') \<Rightarrow> steps fs s')"

definition sendStep :: "GLcall list \<Rightarrow> drawState \<Rightarrow> error option \<times> drawState" where
  "sendStep cs s = (case send cs (fst s) of (e, gl') \<Rightarrow> (e, (gl', snd s)))"

text \<open>\<^verbatim>\<open>if (!bufferData.vertex) bufferData.vertex = gl.createBuffer()\<close>, for any of the three buffers.\<close>

definition ensureBuffer :: "GLdriver \<Rightarrow> GL \<Rightarrow> glref \<Rightarrow> glref \<times> GL" where
  "ensureBuffer d gl b =
     (if \<not> isObject b
      then (case fresh d gl of (b', gl') \<Rightarrow> (b', emit [CreateBuffer b'] gl'))
      else (b, gl))"

definition ensureVertex :: "GLdriver \<Rightarrow> drawState \<Rightarrow> error option \<times> drawState" where
  "ensureVertex d s =
     (case ensureBuffer d (fst s) (buf_vertex (snd s)) of
        (b, gl') \<Rightarrow> (None, (gl', (snd s)\<lparr>buf_vertex := b\<rparr>)))"

definition ensureUv :: "GLdriver \<Rightarrow> drawState \<Rightarrow> error option \<times> drawState" where
  "ensureUv d s =
     (case ensureBuffer d (fst s) (buf_uv (snd s)) of
        (b, gl') \<Rightarrow> (None, (gl', (snd s)\<lparr>buf_uv := b\<rparr>)))"

definition ensureIndex :: "GLdriver \<Rightarrow> drawState \<Rightarrow> error option \<times> drawState" where
  "ensureIndex d s =
     (case ensureBuffer d (fst s) (buf_index (snd s)) of
        (b, gl') \<Rightarrow> (None, (gl', (snd s)\<lparr>buf_index := b\<rparr>)))"

text \<open>
  \<open>setupUniformChannelFlagLocation\<close>: the colour of the context's channel. For a context
  without a channel, or with a channel outside the four colours, \<open>getChannelFlagAsColor\<close>
  answers \<^verbatim>\<open>undefined\<close> and reading its component raises a TypeError, before \<open>uniform4f\<close>
  is called.
\<close>

definition setupUniformChannelFlagLocation ::
  "CubismRenderer_WebGL \<Rightarrow> CubismShaderSet \<Rightarrow> CubismClippingContext
     \<Rightarrow> drawState \<Rightarrow> error option \<times> drawState" where
  "setupUniformChannelFlagLocation renderer shaderSet context s =
     (case getChannelFlagAsColor (clippingManager renderer) (layoutChannelNo context) of
        None \<Rightarrow> (Some TypeError, s)
      | Some colorChannel \<Rightarrow>
          sendStep [Uniform4f (uniformChannelFlagLocation shaderSet)
                      (col_R colorChannel) (col_G colorChannel)
                      (col_B colorChannel) (col_A colorChannel)] s)"

definition setupUniformClipMatrixLocation ::
  "CubismRenderer_WebGL \<Rightarrow> CubismShaderSet \<Rightarrow> CubismClippingContext
     \<Rightarrow> drawState \<Rightarrow> error option \<times> drawState" where
  "setupUniformClipMatrixLocation renderer shaderSet context =
     sendStep [ActiveTexture 1, BindTexture (getColorBuffer renderer),
               Uniform1i (samplerTexture1Location shaderSet) 1,
               UniformMatrix4fv (uniformClipMatrixLocation shaderSet) (matrixForDraw context)]"

text \<open>
  The last part of \<open>setupShaderProgram\<close>: the uniforms of the mask pass or of the screen
  pass.
\<close>

definition setupUniforms ::
  "CubismRenderer_WebGL \<Rightarrow> CubismShaderSet \<Rightarrow> CubismTextureColor \<Rightarrow> CubismMatrix44
     \<Rightarrow> drawState \<Rightarrow> error option \<times> drawState" where
  "setupUniforms renderer shaderSet baseColor matrix4x4 =
     (case clippingContextBufferForMask renderer of
        Some maskContext \<Rightarrow>
          steps
            [setupUniformChannelFlagLocation renderer shaderSet maskContext,
             sendStep
               [UniformMatrix4fv (uniformClipMatrixLocation shaderSet)
                  (matrixForMask maskContext),
                Uniform4f (Some (uniformBaseColorLocation shaderSet))
                  (rect_x (layoutBounds maskContext) * 2 - 1)
                  (rect_y (layoutBounds maskContext) * 2 - 1)
                  (getRight (layoutBounds maskContext) * 2 - 1)
                  (getBottom (layoutBounds maskContext) * 2 - 1)]]
      | None \<Rightarrow>
          steps
            ((case clippingContextBufferForDraw renderer of
                None \<Rightarrow> []
              | Some drawContext \<Rightarrow>
                  [setupUniformClipMatrixLocation renderer shaderSet drawContext,
                   setupUniformChannelFlagLocation renderer shaderSet drawContext])
             @ [sendStep
                  [UniformMatrix4fv (uniformMatrixLocation shaderSet) matrix4x4,
                   Uniform4f (Some (uniformBaseColorLocation shaderSet))
                     (col_R baseColor) (col_G baseColor)
                     (col_B baseColor) (col_A baseColor)]]))"

text \<open>
  \<open>setupShaderProgram\<close>. The result is the error raised, if any, with the state the call
  leaves behind in either case: the shader object (its \<open>_shaderSets\<close>), the context, the
  object \<open>bufferData\<close> and the messages logged. A key without a shader set gives
  \<^verbatim>\<open>undefined\<close>, whose \<open>shaderProgram\<close> cannot be read.
\<close>

definition setupShaderProgram ::
  "GLdriver \<Rightarrow> CubismShader_WebGL \<Rightarrow> GL \<Rightarrow> CubismRenderer_WebGL \<Rightarrow> glref \<Rightarrow> nat
     \<Rightarrow> real list \<Rightarrow> nat list \<Rightarrow> real list \<Rightarrow> BufferDataRec \<Rightarrow> real \<Rightarrow> CubismBlendMode
     \<Rightarrow> CubismTextureColor \<Rightarrow> bool \<Rightarrow> CubismMatrix44 \<Rightarrow> bool
     \<Rightarrow> (error \<times> CubismShader_WebGL \<times> GL \<times> BufferDataRec \<times> string list)
        + (CubismShader_WebGL \<times> GL \<times> BufferDataRec \<times> string list)" where
  "setupShaderProgram d sh gl renderer textureId vertexCount vertexArray indexArray uvArray
       bufData opacity colorBlendMode baseColor isPremultiplied matrix4x4 invertedMask =
     (let msgs0 = (if \<not> isPremultiplied then [''NoPremultipliedAlpha is not allowed''] else []) in
      case (case shaderSets sh of
              None \<Rightarrow> generateShaders d gl
            | Some sets \<Rightarrow> (Inr sets, gl, [])) of
        (Inl e, gl1, msgs1) \<Rightarrow> Inl (e, sh, gl1, bufData, msgs0 @ msgs1)
      | (Inr sets, gl1, msgs1) \<Rightarrow>
         (let sh1 = sh\<lparr>shaderSets := Some sets\<rparr>;
              setupMask = (clippingContextBufferForMask renderer \<noteq> None);
              forMasked = (clippingContextBufferForDraw renderer \<noteq> None)
          in case shaderContent setupMask forMasked invertedMask colorBlendMode of
               (key, SRC_COLOR, DST_COLOR', SRC_ALPHA, DST_ALPHA) \<Rightarrow>
                (case sets key of
                   None \<Rightarrow> Inl (TypeError, sh1, gl1, bufData, msgs0 @ msgs1)
                 | Some shaderSet \<Rightarrow>
                    (case steps
                       [sendStep [UseProgram (shaderProgram shaderSet)],
                        ensureVertex d,
                        (\<lambda>s. sendStep
                           [BindBuffer ARRAY_BUFFER (buf_vertex (snd s)),
                            BufferData ARRAY_BUFFER (FloatData vertexArray),
                            EnableVertexAttribArray (attributePositionLocation shaderSet),
                            VertexAttribPointer (attributePositionLocation shaderSet)] s),
                        ensureUv d,
                        (\<lambda>s. sendStep
                           [BindBuffer ARRAY_BUFFER (buf_uv (snd s)),
                            BufferData ARRAY_BUFFER (FloatData uvArray),
                            EnableVertexAttribArray (attributeTexCoordLocation shaderSet),
                            VertexAttribPointer (attributeTexCoordLocation shaderSet),
                            ActiveTexture 0, BindTexture textureId,
                            Uniform1i (Some (samplerTexture0Location shaderSet)) 0] s),
                        ensureIndex d,
                        (\<lambda>s. sendStep
                           [BindBuffer ELEMENT_ARRAY_BUFFER (buf_index (snd s)),
                            BufferData ELEMENT_ARRAY_BUFFER (IndexData indexArray),
                            BlendFuncSeparate SRC_COLOR DST_COLOR' SRC_ALPHA DST_ALPHA] s),
                        setupUniforms renderer shaderSet baseColor matrix4x4]
                       (gl1, bufData) of
                       (Some e, (gl2, bufData')) \<Rightarrow> Inl (e, sh1, gl2, bufData', msgs0 @ msgs1)
                     | (None, (gl2, bufData')) \<Rightarrow> Inr (sh1, gl2, bufData', msgs0 @ msgs1)))))"

text \<open>
  \<open>drawMesh\<close>. The model colour is scaled outside the mask pass; the texture is the bound one
  or \<^verbatim>\<open>null\<close>; after \<open>setupShaderProgram\<close> the triangles are drawn and the program and both
  context buffers of the renderer are reset. When \<open>setupShaderProgram\<close> raises, \<open>drawMesh\<close>
  is left at that point: the renderer keeps its context buffers. The commands of
  \<open>drawMesh\<close> itself carry no handle but \<^verbatim>\<open>null\<close>, which \<open>useProgram\<close> accepts.
\<close>

definition drawMesh ::
  "GLdriver \<Rightarrow> CubismShader_WebGL \<Rightarrow> GL \<Rightarrow> CubismRenderer_WebGL \<Rightarrow> nat \<Rightarrow> nat \<Rightarrow> nat
     \<Rightarrow> nat list \<Rightarrow> real list \<Rightarrow> real list \<Rightarrow> real \<Rightarrow> CubismBlendMode \<Rightarrow> bool
     \<Rightarrow> (error \<times> CubismShader_WebGL \<times> GL \<times> CubismRenderer_WebGL \<times> string list)
        + (CubismShader_WebGL \<times> GL \<times> CubismRenderer_WebGL \<times> string list)" where
  "drawMesh d sh gl renderer textureNo indexCount vertexCount indexArray vertexArray uvArray
       opacity colorBlendMode invertedMask =
     (let gl1 = emit [if isCulling renderer then EnableCullFace else DisableCullFace,
                      FrontFaceCCW] gl;
          c0 = getModelColor renderer;
          modelColorRGBA =
            (if clippingContextBufferForMask renderer = None
             then (let a = col_A c0 * opacity in
                   if isPremultipliedAlpha renderer
                   then \<lparr>col_R = col_R c0 * a, col_G = col_G c0 * a, col_B = col_B c0 * a, col_A = a\<rparr>
                   else c0\<lparr>col_A := a\<rparr>)
             else c0);
          drawtexture = (case textures renderer textureNo of
                           None \<Rightarrow> JsNull
                         | Some t \<Rightarrow> if t = JsNull then JsNull else t)
      in case setupShaderProgram d sh gl1 renderer drawtexture vertexCount vertexArray
                indexArray uvArray (bufferData renderer) opacity colorBlendMode
                modelColorRGBA (isPremultipliedAlpha renderer) (getMvpMatrix renderer)
                invertedMask of
           Inl (e, sh', gl2, bufData', msgs) \<Rightarrow>
             Inl (e, sh', gl2, renderer\<lparr>bufferData := bufData'\<rparr>, msgs)
         | Inr (sh', gl2, bufData', msgs) \<Rightarrow>
             Inr (sh',
                  emit [DrawElements indexCount, UseProgram JsNull] gl2,
                  renderer\<lparr>bufferData := bufData',
                           clippingContextBufferForDraw := None,
                           clippingContextBufferForMask := None\<rparr>,
                  msgs))"

section \<open>The specification's layout rule, and inputs used as examples\<close>

text \<open>
  The distribution of \<open>n\<close> active groups over the four channels as the specification
  words it: channel \<open>c\<close> receives \<open>floor(n/4)\<close> groups, plus one if \<open>c < n mod 4\<close>; the
  groups of a channel follow those of the channels before it in list order.
\<close>

definition slotCount :: "nat \<Rightarrow> nat \<Rightarrow> nat" where
  "slotCount n c = n div 4 + (if c < n mod 4 then 1 else 0)"

definition slotOffset :: "nat \<Rightarrow> nat \<Rightarrow> nat" where
  "slotOffset n c = (\<Sum>c' \<leftarrow> [0..<c]. slotCount n c')"

text \<open>
  The tile of the \<open>i\<close>-th group in a channel of \<open>k\<close> groups as the specification words it:
  the unit square for one group, the halves split at \<open>x = 0.5\<close> for two, a tile of the
  2x2 grid up to four, a tile of the 3x3 grid up to nine (tiles row by row).
\<close>

definition gridTile :: "nat \<Rightarrow> nat \<Rightarrow> csmRect" where
  "gridTile g i =
     \<lparr>rect_x = real (i mod g) / real g, rect_y = real (i div g) / real g,
      rect_width = 1 / real g, rect_height = 1 / real g\<rparr>"

definition spec_tile :: "nat \<Rightarrow> nat \<Rightarrow> csmRect" where
  "spec_tile k i =
     (if k = 1 then \<lparr>rect_x = 0, rect_y = 0, rect_width = 1, rect_height = 1\<rparr>
      else if k = 2 then \<lparr>rect_x = real i * 0.5, rect_y = 0, rect_width = 0.5, rect_height = 1\<rparr>
      else if k \<le> 4 then gridTile 2 i
      else gridTile 3 i)"

definition assigned :: "CubismClippingContext \<Rightarrow> nat \<Rightarrow> csmRect \<Rightarrow> CubismClippingContext" where
  "assigned cc c r = cc\<lparr>layoutChannelNo := Some c, layoutBounds := r\<rparr>"

text \<open>The first \<open>k\<close> rounds of the loop of \<open>sortDrawableIndexList\<close> over the render orders \<open>ro\<close>.\<close>

definition scatter :: "int list \<Rightarrow> nat list \<Rightarrow> nat \<Rightarrow> nat list" where
  "scatter ro v0 k = foldl (\<lambda>v i. csmVector_set v (js_index ro i) i) v0 [0..<k]"

text \<open>The invariant of the loop of \<open>initialize\<close> after \<open>k\<close> drawables.\<close>

definition drawInv :: "int list \<Rightarrow> nat \<Rightarrow> CubismClippingManager_WebGL \<Rightarrow> bool" where
  "drawInv cs k m \<longleftrightarrow>
     length (clippingContextListForDraw m) = k \<and>
     (\<forall>i<k. (clippingContextListForDraw m ! i = None \<longleftrightarrow> cs ! i \<le> 0) \<and>
        (\<forall>r. clippingContextListForDraw m ! i = Some r \<longrightarrow>
           r < length (clippingContextListForMask m) \<and>
           i \<in> set (clippedDrawableIndexList (clippingContextListForMask m ! r))))"

text \<open>
  The manager after \<open>initialize\<close> on a model of one drawable whose mask list is the
  non-empty list \<open>A\<close>: the list \<open>A\<close> registered as a clipping context.
\<close>

definition registered :: "int list \<Rightarrow> CubismClippingManager_WebGL" where
  "registered A =
     CubismClippingManager_WebGL_new
       \<lparr>clippingContextListForMask :=
          [addClippedDrawable (CubismClippingContext_new A (int (length A))) 0],
        clippingContextListForDraw := [Some 0]\<rparr>"

text \<open>A model of \<open>length renderOrder\<close> visible drawables with the given render orders.\<close>

definition orderModel :: "int list \<Rightarrow> CubismModel" where
  "orderModel renderOrder =
     \<lparr>getDrawableCount = length renderOrder, getDrawableRenderOrders = renderOrder,
      getDrawableVertexCount = (\<lambda>i. 0),
      getDrawableVertices = (\<lambda>i. []),
      getDrawableDynamicFlagIsVisible = (\<lambda>i. True),
      getDrawableDynamicFlagVertexPositionsDidChange = (\<lambda>i. True)\<rparr>"

text \<open>
  A model of four drawables: drawable 0 is clipped by drawable 1 and drawable 2 by
  drawable 3. The drawables below \<open>hidden\<close> have no vertices; the others have the two
  vertices \<open>(0, 0)\<close> and \<open>(1, 2)\<close>, stored as interleaved coordinates; no vertex
  position changed since the frame before, so that no mask is drawn. \<open>exampleManager\<close> is
  the manager that \<open>initialize\<close> builds for it.
\<close>

definition exampleConstant :: Constant where
  "exampleConstant = \<lparr>vertexOffset = 0, vertexStep = 2\<rparr>"

definition exampleModel :: "nat \<Rightarrow> CubismModel" where
  "exampleModel hidden =
     \<lparr>getDrawableCount = 4, getDrawableRenderOrders = [0, 1, 2, 3],
      getDrawableVertexCount = (\<lambda>i. if i < hidden then 0 else 2),
      getDrawableVertices = (\<lambda>i. if i < hidden then [] else [0, 0, 1, 2]),
      getDrawableDynamicFlagIsVisible = (\<lambda>i. True),
      getDrawableDynamicFlagVertexPositionsDidChange = (\<lambda>i. False)\<rparr>"

definition exampleManager :: CubismClippingManager_WebGL where
  "exampleManager =
     CubismClippingManager_WebGL_new
       \<lparr>clippingContextListForMask :=
          [addClippedDrawable (CubismClippingContext_new [1] 1) 0,
           addClippedDrawable (CubismClippingContext_new [3] 1) 2],
        clippingContextListForDraw := [Some 0, None, Some 1, None]\<rparr>"

text \<open>The first context of \<open>exampleManager\<close> after a frame in which drawable 0 had its vertices.\<close>

definition usedContext :: CubismClippingContext where
  "usedContext =
     (addClippedDrawable (CubismClippingContext_new [1] 1) 0)
       \<lparr>isUsing := Some True,
        allClippedDrawRect := \<lparr>rect_x = 0, rect_y = 0, rect_width = 1, rect_height = 2\<rparr>\<rparr>"

text \<open>
  The sources that \<open>generateShaders\<close> passes to \<open>loadShaderProgram\<close> for a variant, and
  whether the program of a variant builds on a driver: both shaders compile and the
  program links.
\<close>

definition variantSources :: "ShaderNames \<Rightarrow> ShaderSrc \<times> ShaderSrc" where
  "variantSources index =
     (if index = SetupMask then (vertexShaderSrcSetupMask, fragmentShaderSrcsetupMask)
      else if index = NormalPremultipliedAlpha \<or> index = AddPremultipliedAlpha
              \<or> index = MultPremultipliedAlpha
      then (vertexShaderSrc, fragmentShaderSrcPremultipliedAlpha)
      else (vertexShaderSrcMasked,
            if isInvertedShader index
            then fragmentShaderSrcMaskInvertedPremultipliedAlpha
            else fragmentShaderSrcMaskPremultipliedAlpha))"

definition builds :: "GLdriver \<Rightarrow> ShaderSrc \<Rightarrow> ShaderSrc \<Rightarrow> bool" where
  "builds d v f \<longleftrightarrow>
     compileStatus d VERTEX_SHADER v \<and> compileStatus d FRAGMENT_SHADER f \<and> linkStatus d v f"

definition variantBuilds :: "GLdriver \<Rightarrow> ShaderNames \<Rightarrow> bool" where
  "variantBuilds d index \<longleftrightarrow> builds d (fst (variantSources index)) (snd (variantSources index))"

text \<open>The commands of a context that draw: \<open>useProgram\<close> and \<open>drawElements\<close>.\<close>

fun isDrawCommand :: "GLcall \<Rightarrow> bool" where
  "isDrawCommand (UseProgram program) = True"
| "isDrawCommand (DrawElements n) = True"
| "isDrawCommand _ = False"

definition drawCommands :: "GL \<Rightarrow> GLcall list" where
  "drawCommands gl = filter isDrawCommand (calls gl)"


text \<open>
  A driver that creates every object and compiles no shader, a renderer without clipping
  and without textures, and one \<open>drawMesh\<close> of a triangle on them, starting from a shader
  object whose programs are not generated yet.
\<close>

definition failingDriver :: GLdriver where
  "failingDriver =
     \<lparr>createOk = (\<lambda>n. True), compileStatus = (\<lambda>t s. False), linkStatus = (\<lambda>v f. True)\<rparr>"

definition exampleRenderer :: CubismRenderer_WebGL where
  "exampleRenderer =
     \<lparr>isCulling = False,
      getModelColor = \<lparr>col_R = 1, col_G = 1, col_B = 1, col_A = 1\<rparr>,
      isPremultipliedAlpha = True,
      getMvpMatrix = CubismMatrix44_new,
      textures = Map.empty,
      clippingManager = CubismClippingManager_WebGL_new,
      getColorBuffer = JsNull,
      clippingContextBufferForMask = None,
      clippingContextBufferForDraw = None,
      bufferData = \<lparr>buf_vertex = JsNull, buf_uv = JsNull, buf_index = JsNull\<rparr>\<rparr>"

definition exampleDraw ::
  "(error \<times> CubismShader_WebGL \<times> GL \<times> CubismRenderer_WebGL \<times> string list)
   + (CubismShader_WebGL \<times> GL \<times> CubismRenderer_WebGL \<times> string list)" where
  "exampleDraw =
     drawMesh failingDriver \<lparr>shaderSets = None\<rparr> \<lparr>calls = [], nextObject = 1\<rparr> exampleRenderer
       0 3 3 [0, 1, 2] [0, 0, 1, 0, 0, 1] [0, 0, 1, 0, 0, 1] 1 CubismBlendMode_Normal False"

text \<open>
  The \<open>blendFuncSeparate\<close> command for a blend tuple; a driver on which everything
  succeeds; and one \<open>setupShaderProgram\<close> for a normal, unclipped draw on it, with the
  flag \<open>isPremultipliedAlpha\<close> true and with the flag false.
\<close>

definition blendCall :: "GLblend \<times> GLblend \<times> GLblend \<times> GLblend \<Rightarrow> GLcall" where
  "blendCall t = (case t of (srcColor, dstColor, srcAlpha, dstAlpha) \<Rightarrow>
                    BlendFuncSeparate srcColor dstColor srcAlpha dstAlpha)"

definition workingDriver :: GLdriver where
  "workingDriver =
     \<lparr>createOk = (\<lambda>n. True), compileStatus = (\<lambda>t s. True), linkStatus = (\<lambda>v f. True)\<rparr>"

definition exampleSetup ::
  "(error \<times> CubismShader_WebGL \<times> GL \<times> BufferDataRec \<times> string list)
   + (CubismShader_WebGL \<times> GL \<times> BufferDataRec \<times> string list)" where
  "exampleSetup =
     setupShaderProgram workingDriver \<lparr>shaderSets = None\<rparr> \<lparr>calls = [], nextObject = 1\<rparr>
       exampleRenderer JsNull 3 [0, 0, 1, 0, 0, 1] [0, 1, 2] [0, 0, 1, 0, 0, 1]
       (bufferData exampleRenderer) 1 CubismBlendMode_Normal
       \<lparr>col_R = 1, col_G = 1, col_B = 1, col_A = 1\<rparr> True CubismMatrix44_new False"




section \<open>findSameClip: when a registered context matches\<close>

lemma hasClipId_iff: "hasClipId B (length B) (Some v) \<longleftrightarrow> v \<in> set B"
  by (auto simp: hasClipId_def list_ex_iff js_index_def in_set_conv_nth)

lemma filter_upt_full: "length (filter P [0..<n]) = n \<longleftrightarrow> (\<forall>j<n. P j)"
proof -
  have "length (filter P [0..<n]) = length [0..<n] \<longleftrightarrow> (\<forall>j \<in> set [0..<n]. P j)"
    by (metis filter_id_conv length_filter_le filter_True le_antisym length_filter_less not_less) 
  thus ?thesis by auto
qed

lemma sameCount_full:
  assumes "length A = length B"
  shows "sameCount A B (length B) = length B \<longleftrightarrow> set A \<subseteq> set B"
proof -
  have "sameCount A B (length B) = length B \<longleftrightarrow> (\<forall>j<length A. A ! j \<in> set B)"
    using assms by (simp add: sameCount_def filter_upt_full js_index_def hasClipId_iff)
  also have "\<dots> \<longleftrightarrow> set A \<subseteq> set B"
    unfolding subset_eq all_set_conv_all_nth by blast
  finally show ?thesis .
qed

lemma initialize_registered:
  "A \<noteq> [] \<Longrightarrow> initialize CubismClippingManager_WebGL_new 1 [A] [int (length A)] = Some (registered A)"
  by (simp add: initialize_def js_index_def registerClippedDrawable_def findSameClip_def
      CubismClippingManager_WebGL_new_def registered_def)


text \<open>
  Claim C1, as the code has it. After the list \<open>A\<close> was registered as a clipping context,
  \<open>findSameClip\<close> on the list \<open>B\<close> returns that context if and only if the two lists have
  the same length and every id of \<open>A\<close> occurs in \<open>B\<close>, and returns \<^verbatim>\<open>null\<close> otherwise. For lists
  without repeated ids this is equality of the two lists as sets, whatever the order of the
  elements.
\<close>

theorem findSameClip_set_equality:
  "(findSameClip (registered A) B (int (length B)) = Some 0
      \<longleftrightarrow> length A = length B \<and> set A \<subseteq> set B)
   \<and> (findSameClip (registered A) B (int (length B)) = None
      \<longleftrightarrow> \<not> (length A = length B \<and> set A \<subseteq> set B))
   \<and> (distinct A \<and> distinct B \<longrightarrow>
        (findSameClip (registered A) B (int (length B)) = Some 0 \<longleftrightarrow> set A = set B))"
proof -
  let ?r = "findSameClip (registered A) B (int (length B))"
  have r: "?r = (if length A = length B \<and> set A \<subseteq> set B then Some 0 else None)"
    unfolding findSameClip_def registered_def
    using sameCount_full[of A B]
    by (auto simp: addClippedDrawable_def CubismClippingContext_new_def Let_def)
  have d: "distinct A \<Longrightarrow> distinct B \<Longrightarrow> (length A = length B \<and> set A \<subseteq> set B) \<longleftrightarrow> set A = set B"
    by (metis card_subset_eq distinct_card List.finite_set subset_refl)
  show ?thesis unfolding r using d by auto
qed


text \<open>
  Claim C1, an instance: \<open>[1,2,3]\<close> and \<open>[3,2,1]\<close> have no repeated ids and match;
  \<open>[1,2,3]\<close> and \<open>[1,2]\<close> do not.
\<close>

theorem findSameClip_set_equality_witness:
  "distinct [1, 2, 3 :: int] \<and> distinct [3, 2, 1 :: int]
   \<and> set [1, 2, 3 :: int] = set [3, 2, 1]
   \<and> findSameClip (registered [1, 2, 3]) [3, 2, 1] 3 = Some 0
   \<and> findSameClip (registered [1, 2, 3]) [1, 2] 2 = None"
  using findSameClip_set_equality[of "[1, 2, 3]" "[3, 2, 1]"]
    findSameClip_set_equality[of "[1, 2, 3]" "[1, 2]"]
  by auto


text \<open>
  Claim C1 as stated fails with repeated ids: with \<open>[1,1,2]\<close> registered through
  \<open>initialize\<close>, the query \<open>[1,2,3]\<close> is answered with the context although the sets
  differ, and the query \<open>[1,2]\<close> is answered with \<^verbatim>\<open>null\<close> although the sets are equal.
\<close>

theorem findSameClip_duplicates_counterexample:
  "initialize CubismClippingManager_WebGL_new 1 [[1, 1, 2]] [3] = Some (registered [1, 1, 2])
   \<and> findSameClip (registered [1, 1, 2]) [1, 2, 3] 3 = Some 0
   \<and> set [1, 1, 2 :: int] \<noteq> set [1, 2, 3]
   \<and> findSameClip (registered [1, 1, 2]) [1, 2] 2 = None
   \<and> set [1, 1, 2 :: int] = set [1, 2]"
proof -
  have "initialize CubismClippingManager_WebGL_new 1 [[1, 1, 2]] [3] = Some (registered [1, 1, 2])"
    using initialize_registered[of "[1, 1, 2]"] by simp
  moreover have "findSameClip (registered [1, 1, 2]) [1, 2, 3] 3 = Some 0"
    by (simp add: findSameClip_def registered_def addClippedDrawable_def CubismClippingContext_new_def
        sameCount_def hasClipId_def js_index_def upt_conv_Cons)
  moreover have "findSameClip (registered [1, 1, 2]) [1, 2] 2 = None"
    by (simp add: findSameClip_def registered_def addClippedDrawable_def CubismClippingContext_new_def)
  moreover have "set [1, 1, 2 :: int] \<noteq> set [1, 2, 3]"
  proof -
    have "(3::int) \<in> set [1, 2, 3]" and "(3::int) \<notin> set [1, 1, 2]" by simp_all
    then show ?thesis by metis
  qed
  moreover have "set [1, 1, 2 :: int] = set [1, 2]" by auto
  ultimately show ?thesis by blast
qed


section \<open>initialize: the draw list\<close>

lemma initialize_loop_append:
  "initialize_loop ms cs (xs @ ys) m =
     (case initialize_loop ms cs xs m of None \<Rightarrow> None | Some m1 \<Rightarrow> initialize_loop ms cs ys m1)"
  by (induction xs arbitrary: m) (auto split: option.splits)

lemma findSameClip_from_range:
  "findSameClip_from ccs i0 ms c = Some r \<Longrightarrow> i0 \<le> r \<and> r < i0 + length ccs"
  by (induction ccs arbitrary: i0) (fastforce simp: Let_def split: if_splits)+

lemma findSameClip_range: "findSameClip m ms c = Some r \<Longrightarrow> r < length (clippingContextListForMask m)"
  using findSameClip_from_range[of "clippingContextListForMask m" 0 ms c r]
  by (simp add: findSameClip_def)

lemma drawInv_null:
  assumes "drawInv cs k m" "cs ! k \<le> 0"
  shows "drawInv cs (Suc k) (m\<lparr>clippingContextListForDraw := clippingContextListForDraw m @ [None]\<rparr>)"
  using assms unfolding drawInv_def
  by (auto simp: nth_append less_Suc_eq)

lemma drawInv_register:
  assumes "drawInv cs k m" "\<not> cs ! k \<le> 0"
  shows "drawInv cs (Suc k) (registerClippedDrawable m k ms c)"
proof (cases "findSameClip m ms c")
  case None
  then show ?thesis
    using assms unfolding drawInv_def registerClippedDrawable_def
    by (auto simp: nth_append less_Suc_eq addClippedDrawable_def)
next
  case (Some r)
  then have r: "r < length (clippingContextListForMask m)"
    by (rule findSameClip_range)
  show ?thesis
    using assms r unfolding drawInv_def registerClippedDrawable_def Some
    by (auto simp: nth_append less_Suc_eq addClippedDrawable_def nth_list_update)
qed

lemma initialize_loop_inv:
  assumes "k \<le> length cs" "k \<le> length ms" "drawInv cs 0 m"
  shows "\<exists>m'. initialize_loop ms cs [0..<k] m = Some m' \<and> drawInv cs k m'"
  using assms(1,2)
proof (induction k)
  case 0
  then show ?case using assms(3) by simp
next
  case (Suc k)
  then obtain m1 where m1: "initialize_loop ms cs [0..<k] m = Some m1" "drawInv cs k m1"
    by auto
  show ?case
  proof (cases "cs ! k \<le> 0")
    case True
    then show ?thesis
      using m1 Suc.prems drawInv_null[OF m1(2) True]
      by (simp add: initialize_loop_append js_index_def)
  next
    case False
    then show ?thesis
      using m1 Suc.prems drawInv_register[OF m1(2) False]
      by (simp add: initialize_loop_append js_index_def)
  qed
qed


text \<open>
  Claim C10. After \<open>initialize\<close> on a freshly constructed manager, with one mask count and
  one mask list per drawable, the draw list has exactly \<open>drawableCount\<close> entries; entry \<open>i\<close>
  is \<^verbatim>\<open>null\<close> if and only if \<open>drawableMaskCounts[i] <= 0\<close>, and otherwise it refers to a context
  of the mask list whose list of clipped drawables contains \<open>i\<close>.
\<close>

theorem initialize_draw_list:
  assumes "length drawableMaskCounts = drawableCount" "length drawableMasks = drawableCount"
  shows "\<exists>m'. initialize CubismClippingManager_WebGL_new drawableCount drawableMasks drawableMaskCounts = Some m'
     \<and> length (clippingContextListForDraw m') = drawableCount
     \<and> (\<forall>i<drawableCount.
          (clippingContextListForDraw m' ! i = None \<longleftrightarrow> drawableMaskCounts ! i \<le> 0)
          \<and> (\<forall>r. clippingContextListForDraw m' ! i = Some r \<longrightarrow>
                r < length (clippingContextListForMask m')
                \<and> i \<in> set (clippedDrawableIndexList (clippingContextListForMask m' ! r))))"
proof -
  have "drawInv drawableMaskCounts 0 CubismClippingManager_WebGL_new"
    by (simp add: drawInv_def CubismClippingManager_WebGL_new_def)
  from initialize_loop_inv[OF _ _ this, of drawableCount drawableMasks] assms
  show ?thesis
    by (simp add: initialize_def drawInv_def)
qed


text \<open>
  Claim C10, an instance: three drawables, the first and the third clipped by drawable 2,
  share one context.
\<close>

theorem initialize_draw_list_witness:
  "length [1, 0, 1 :: int] = 3 \<and> length [[2], [], [2 :: int]] = 3
   \<and> (\<exists>m'. initialize CubismClippingManager_WebGL_new 3 [[2], [], [2]] [1, 0, 1] = Some m'
          \<and> clippingContextListForDraw m' = [Some 0, None, Some 0]
          \<and> map clippedDrawableIndexList (clippingContextListForMask m') = [[0, 2]])"
  using initialize_draw_list[of "[1, 0, 1]" 3 "[[2], [], [2]]"]
  by (simp add: initialize_def upt_conv_Cons js_index_def registerClippedDrawable_def
      findSameClip_def CubismClippingManager_WebGL_new_def CubismClippingContext_new_def
      addClippedDrawable_def sameCount_def hasClipId_def)

section \<open>calcClippedDrawTotalBounds: contexts without a valid vertex\<close>

lemma vertexLoop_empty: "vertexLoop vs 0 step p b = b"
  by simp

lemma vertexLoop_example:
  "vertexLoop [0, 0, 1, 2] 2 2 0 (MAX_VALUE, MAX_VALUE, MIN_VALUE, MIN_VALUE) = (0, 0, 1, 2)"
  by (simp add: vertexUpdate_def js_index_def MAX_VALUE_def MIN_VALUE_def)

lemma MAX_VALUE_pos: "0 < MAX_VALUE"
  by (simp add: MAX_VALUE_def)

lemma calc_no_vertices:
  assumes "\<forall>i \<in> set (clippedDrawableIndexList cc). getDrawableVertexCount model i = 0"
  shows "calcClippedDrawTotalBounds C model cc = cc"
proof -
  have "\<forall>i \<in> set js. getDrawableVertexCount model i = 0 \<Longrightarrow> foldl (calcStep C model) st js = st" for js st
    by (induction js arbitrary: st) (auto simp: calcStep_def split: prod.splits)
  from this[OF assms] show ?thesis by (simp add: calcClippedDrawTotalBounds_def)
qed

lemma calc_example:
  assumes "clippedDrawableIndexList cc = [i]"
  shows "calcClippedDrawTotalBounds exampleConstant (exampleModel e) cc =
     (if i < e then cc
      else cc\<lparr>isUsing := Some True,
              allClippedDrawRect := \<lparr>rect_x = 0, rect_y = 0, rect_width = 1, rect_height = 2\<rparr>\<rparr>)"
  using MAX_VALUE_pos
  by (simp add: calcClippedDrawTotalBounds_def assms calcStep_def exampleModel_def exampleConstant_def
      vertexLoop_example del: vertexLoop.simps) (simp add: MIN_VALUE_def)


text \<open>
  Claim C3 at a concrete input. The first context of the example manager is in use after a
  frame in which its clipped drawable had vertices. In a later frame the drawable has no
  vertex: the function returns the context as it was, still in use and with the old
  rectangle. On the fresh context of the first frame the flag stays unassigned; the value
  \<^verbatim>\<open>false\<close> is never written.
\<close>

theorem calcClippedDrawTotalBounds_keeps_stale_state:
  "calcClippedDrawTotalBounds exampleConstant (exampleModel 0)
       (clippingContextListForMask exampleManager ! 0) = usedContext
   \<and> calcClippedDrawTotalBounds exampleConstant (exampleModel 1) usedContext = usedContext
   \<and> isUsing usedContext = Some True
   \<and> allClippedDrawRect usedContext = \<lparr>rect_x = 0, rect_y = 0, rect_width = 1, rect_height = 2\<rparr>
   \<and> isUsing (calcClippedDrawTotalBounds exampleConstant (exampleModel 1)
                 (clippingContextListForMask exampleManager ! 0)) = None"
proof -
  let ?fresh = "addClippedDrawable (CubismClippingContext_new [1] 1) 0"
  have f: "clippingContextListForMask exampleManager ! 0 = ?fresh"
    by (simp add: exampleManager_def CubismClippingManager_WebGL_new_def)
  have a: "clippedDrawableIndexList ?fresh = [0]"
    by (simp add: addClippedDrawable_def CubismClippingContext_new_def)
  have b: "clippedDrawableIndexList usedContext = [0]"
    by (simp add: usedContext_def addClippedDrawable_def CubismClippingContext_new_def)
  have 1: "calcClippedDrawTotalBounds exampleConstant (exampleModel 0) ?fresh = usedContext"
    by (simp add: calc_example[OF a] usedContext_def)
  have 2: "calcClippedDrawTotalBounds exampleConstant (exampleModel 1) usedContext = usedContext"
    by (simp add: calc_example[OF b])
  have 3: "calcClippedDrawTotalBounds exampleConstant (exampleModel 1) ?fresh = ?fresh"
    by (simp add: calc_example[OF a])
  have 4: "isUsing ?fresh = None"
    by (simp add: addClippedDrawable_def CubismClippingContext_new_def)
  have 5: "isUsing usedContext = Some True"
    "allClippedDrawRect usedContext = \<lparr>rect_x = 0, rect_y = 0, rect_width = 1, rect_height = 2\<rparr>"
    by (simp_all add: usedContext_def)
  show ?thesis unfolding f 3 using 1 2 4 5 by simp
qed

section \<open>setupClippingContext: which contexts get the layout slots\<close>

lemma setupMatrices_fields:
  "isUsing (setupMatrices cc) = isUsing cc"
  "layoutChannelNo (setupMatrices cc) = layoutChannelNo cc"
  "layoutBounds (setupMatrices cc) = layoutBounds cc"
  "allClippedDrawRect (setupMatrices cc) = allClippedDrawRect cc"
  by (simp_all add: setupMatrices_def)

lemma exampleManager_initialize:
  "initialize CubismClippingManager_WebGL_new 4 [[1], [], [3], []] [1, 0, 1, 0] = Some exampleManager"
  by (simp add: initialize_def upt_conv_Cons js_index_def registerClippedDrawable_def findSameClip_def
      CubismClippingManager_WebGL_new_def CubismClippingContext_new_def addClippedDrawable_def
      sameCount_def hasClipId_def exampleManager_def)

lemma example_bounds:
  "map (calcClippedDrawTotalBounds exampleConstant (exampleModel e)) (clippingContextListForMask exampleManager)
   = [if 0 < e then addClippedDrawable (CubismClippingContext_new [1] 1) 0
      else (addClippedDrawable (CubismClippingContext_new [1] 1) 0)
             \<lparr>isUsing := Some True,
              allClippedDrawRect := \<lparr>rect_x = 0, rect_y = 0, rect_width = 1, rect_height = 2\<rparr>\<rparr>,
      if 2 < e then addClippedDrawable (CubismClippingContext_new [3] 1) 2
      else (addClippedDrawable (CubismClippingContext_new [3] 1) 2)
             \<lparr>isUsing := Some True,
              allClippedDrawRect := \<lparr>rect_x = 0, rect_y = 0, rect_width = 1, rect_height = 2\<rparr>\<rparr>]"
proof -
  have a: "clippedDrawableIndexList (addClippedDrawable (CubismClippingContext_new [1] 1) 0) = [0]"
    and b: "clippedDrawableIndexList (addClippedDrawable (CubismClippingContext_new [3] 1) 2) = [2]"
    by (simp_all add: addClippedDrawable_def CubismClippingContext_new_def)
  show ?thesis
    unfolding exampleManager_def
    by (simp add: CubismClippingManager_WebGL_new_def calc_example[OF a] calc_example[OF b])
qed


lemma exampleModel_unchanged:
  "getDrawableDynamicFlagVertexPositionsDidChange (exampleModel e) = (\<lambda>i. False)"
  by (simp add: exampleModel_def)

text \<open>
  Claim C4 at a concrete input. In the example model with drawable 0 without vertices, the
  first context is not in use and the second is. The count of contexts in use is one, the
  call returns without an error and without a mask draw, and the single slot (channel 0)
  goes to the first context of the list, the one not in use; the context in use is left
  without a channel.
\<close>

theorem slot_given_to_unused_context:
  "\<not> isl (setupClippingContext exampleConstant (exampleModel 1) exampleManager)
   \<and> map (\<lambda>cc. (isUsing cc, layoutChannelNo cc))
        (clippingContextListForMask
           (fst (projr (setupClippingContext exampleConstant (exampleModel 1) exampleManager))))
     = [(None, Some 0), (Some True, None)]
   \<and> fst (snd (projr (setupClippingContext exampleConstant (exampleModel 1) exampleManager))) = []"
  by (simp add: setupClippingContext_def example_bounds Let_def truthy_def
      addClippedDrawable_def CubismClippingContext_new_def
      setupLayoutBounds_def ColorChannelCount_def upt_conv_Cons layoutChannel_def assignLayout_def
      setupMatrices_fields maskDraws_def exampleModel_unchanged)


section \<open>setupLayoutBounds: the distribution over the channels\<close>

lemma layoutRect_spec: "i < k \<Longrightarrow> layoutRect k i = spec_tile k i"
  by (auto simp: layoutRect_def spec_tile_def gridTile_def)

lemma layoutLoop_ok:
  assumes "cur + length js \<le> length ccs"
  shows "\<exists>ccs'. layoutLoop ch k js (ccs, cur) = Inr (ccs', cur + length js)
           \<and> length ccs' = length ccs
           \<and> (\<forall>j<length js. ccs' ! (cur + j) = assigned (ccs ! (cur + j)) ch (layoutRect k (js ! j)))
           \<and> (\<forall>s. s < cur \<or> cur + length js \<le> s \<longrightarrow> ccs' ! s = ccs ! s)"
  using assms
proof (induction js arbitrary: ccs cur)
  case Nil
  then show ?case by simp
next
  case (Cons i js)
  let ?ccs1 = "ccs[cur := assigned (ccs ! cur) ch (layoutRect k i)]"
  have a: "assignLayout ccs cur ch (layoutRect k i) = Inr ?ccs1"
    using Cons.prems by (simp add: assignLayout_def assigned_def)
  have "Suc cur + length js \<le> length ?ccs1" using Cons.prems by simp
  from Cons.IH[OF this] obtain ccs' where
    r: "layoutLoop ch k js (?ccs1, Suc cur) = Inr (ccs', Suc cur + length js)"
    and l: "length ccs' = length ?ccs1"
    and p: "\<forall>j<length js. ccs' ! (Suc cur + j) = assigned (?ccs1 ! (Suc cur + j)) ch (layoutRect k (js ! j))"
    and q: "\<forall>s. s < Suc cur \<or> Suc cur + length js \<le> s \<longrightarrow> ccs' ! s = ?ccs1 ! s"
    by blast
  have 1: "layoutLoop ch k (i # js) (ccs, cur) = Inr (ccs', cur + length (i # js))"
    using a r by simp
  have 2: "\<forall>j<length (i # js). ccs' ! (cur + j) = assigned (ccs ! (cur + j)) ch (layoutRect k ((i # js) ! j))"
  proof (intro allI impI)
    fix j assume j: "j < length (i # js)"
    show "ccs' ! (cur + j) = assigned (ccs ! (cur + j)) ch (layoutRect k ((i # js) ! j))"
    proof (cases j)
      case 0
      then show ?thesis using q Cons.prems by simp
    next
      case (Suc j')
      then show ?thesis using p j by simp
    qed
  qed
  have 3: "\<forall>s. s < cur \<or> cur + length (i # js) \<le> s \<longrightarrow> ccs' ! s = ccs ! s"
    using q by auto
  show ?case using 1 2 3 l by auto
qed

lemma layoutChannel_ok:
  assumes "cur + k \<le> length ccs" "k \<le> 9"
  shows "\<exists>ccs'. layoutChannel ch k (ccs, cur, lg) = Inr (ccs', cur + k, lg)
           \<and> length ccs' = length ccs
           \<and> (\<forall>j<k. ccs' ! (cur + j) = assigned (ccs ! (cur + j)) ch (spec_tile k j))
           \<and> (\<forall>s. s < cur \<or> cur + k \<le> s \<longrightarrow> ccs' ! s = ccs ! s)"
proof -
  consider "k = 0" | "k = 1" | "2 \<le> k" by linarith
  then show ?thesis
  proof cases
    case 1
    then show ?thesis by (simp add: layoutChannel_def)
  next
    case 2
    have "cur + length [0::nat] \<le> length ccs" using assms 2 by simp
    from layoutLoop_ok[OF this, of ch 1] obtain ccs' where
      "layoutLoop ch 1 [0] (ccs, cur) = Inr (ccs', cur + 1)" "length ccs' = length ccs"
      "ccs' ! cur = assigned (ccs ! cur) ch (layoutRect 1 0)"
      "\<forall>s. s < cur \<or> cur + 1 \<le> s \<longrightarrow> ccs' ! s = ccs ! s"
      by auto
    then show ?thesis using 2
      by (auto simp: layoutChannel_def layoutRect_spec split: sum.splits)
  next
    case 3
    have "cur + length [0..<k] \<le> length ccs" using assms by simp
    from layoutLoop_ok[OF this, of ch k] obtain ccs' where
      "layoutLoop ch k [0..<k] (ccs, cur) = Inr (ccs', cur + k)" "length ccs' = length ccs"
      "\<forall>j<k. ccs' ! (cur + j) = assigned (ccs ! (cur + j)) ch (layoutRect k j)"
      "\<forall>s. s < cur \<or> cur + k \<le> s \<longrightarrow> ccs' ! s = ccs ! s"
      by auto
    then show ?thesis using 3 assms(2)
      by (auto simp: layoutChannel_def layoutRect_spec)
  qed
qed

lemma channelLoop_append:
  "channelLoop dv md (xs @ ys) st =
     (case channelLoop dv md xs st of Inl e \<Rightarrow> Inl e | Inr st' \<Rightarrow> channelLoop dv md ys st')"
  by (induction xs arbitrary: st) (auto split: sum.splits)

lemma slotCount_le: "n \<le> 36 \<Longrightarrow> slotCount n c \<le> 9"
  unfolding slotCount_def by presburger

lemma slotCount_sum: "slotCount n 0 + slotCount n 1 + slotCount n 2 + slotCount n 3 = n"
  unfolding slotCount_def by presburger

lemma slotOffset_Suc: "slotOffset n (Suc c) = slotOffset n c + slotCount n c"
  by (simp add: slotOffset_def)

lemma slotOffset_mono: "c' \<le> c \<Longrightarrow> slotOffset n c' \<le> slotOffset n c"
  by (induction c) (auto simp: slotOffset_Suc le_Suc_eq)

lemma slotOffset_4: "slotOffset n 4 = n"
proof -
  have "[0..<4] = [0, 1, 2, 3::nat]" by (simp add: upt_conv_Cons)
  then have "slotOffset n 4 = slotCount n 0 + slotCount n 1 + slotCount n 2 + slotCount n 3"
    by (simp add: slotOffset_def)
  then show ?thesis using slotCount_sum[of n] by simp
qed

lemma channelLoop_prefix:
  assumes "n \<le> length ccs" "n \<le> 36" "c \<le> 4"
  shows "\<exists>ccs'. channelLoop (n div 4) (n mod 4) [0..<c] (ccs, 0, []) = Inr (ccs', slotOffset n c, [])
           \<and> length ccs' = length ccs
           \<and> (\<forall>c'<c. \<forall>i<slotCount n c'.
                 ccs' ! (slotOffset n c' + i)
                   = assigned (ccs ! (slotOffset n c' + i)) c' (spec_tile (slotCount n c') i))
           \<and> (\<forall>s. slotOffset n c \<le> s \<longrightarrow> ccs' ! s = ccs ! s)"
  using assms(3)
proof (induction c)
  case 0
  then show ?case by (simp add: slotOffset_def)
next
  case (Suc c)
  then obtain ccs1 where
    r1: "channelLoop (n div 4) (n mod 4) [0..<c] (ccs, 0, []) = Inr (ccs1, slotOffset n c, [])"
    and l1: "length ccs1 = length ccs"
    and p1: "\<forall>c'<c. \<forall>i<slotCount n c'.
                 ccs1 ! (slotOffset n c' + i)
                   = assigned (ccs ! (slotOffset n c' + i)) c' (spec_tile (slotCount n c') i)"
    and q1: "\<forall>s. slotOffset n c \<le> s \<longrightarrow> ccs1 ! s = ccs ! s"
    by auto
  have "slotOffset n (Suc c) \<le> slotOffset n 4"
    using Suc.prems by (intro slotOffset_mono) simp
  then have fit: "slotOffset n c + slotCount n c \<le> length ccs1"
    using assms(1) l1 by (simp add: slotOffset_4 slotOffset_Suc)
  from layoutChannel_ok[OF fit slotCount_le[OF assms(2)], of c "[]"] obtain ccs2 where
    r2: "layoutChannel c (slotCount n c) (ccs1, slotOffset n c, []) = Inr (ccs2, slotOffset n c + slotCount n c, [])"
    and l2: "length ccs2 = length ccs1"
    and p2: "\<forall>j<slotCount n c. ccs2 ! (slotOffset n c + j)
               = assigned (ccs1 ! (slotOffset n c + j)) c (spec_tile (slotCount n c) j)"
    and q2: "\<forall>s. s < slotOffset n c \<or> slotOffset n c + slotCount n c \<le> s \<longrightarrow> ccs2 ! s = ccs1 ! s"
    by blast
  have step: "channelLoop (n div 4) (n mod 4) [0..<Suc c] (ccs, 0, [])
                = Inr (ccs2, slotOffset n (Suc c), [])"
    using r1 r2 by (simp add: channelLoop_append slotCount_def slotOffset_Suc)
  have old: "\<forall>c'<c. \<forall>i<slotCount n c'.
                 ccs2 ! (slotOffset n c' + i)
                   = assigned (ccs ! (slotOffset n c' + i)) c' (spec_tile (slotCount n c') i)"
  proof (intro allI impI)
    fix c' i assume c': "c' < c" and i: "i < slotCount n c'"
    have "slotOffset n (Suc c') \<le> slotOffset n c"
      using c' by (intro slotOffset_mono) simp
    then have "slotOffset n c' + i < slotOffset n c"
      using i by (simp add: slotOffset_Suc)
    then have "ccs2 ! (slotOffset n c' + i) = ccs1 ! (slotOffset n c' + i)"
      using q2 by simp
    then show "ccs2 ! (slotOffset n c' + i)
                   = assigned (ccs ! (slotOffset n c' + i)) c' (spec_tile (slotCount n c') i)"
      using p1 c' i by simp
  qed
  have new: "\<forall>i<slotCount n c.
                 ccs2 ! (slotOffset n c + i)
                   = assigned (ccs ! (slotOffset n c + i)) c (spec_tile (slotCount n c) i)"
    using p2 q1 by simp
  have all: "\<forall>c'<Suc c. \<forall>i<slotCount n c'.
                 ccs2 ! (slotOffset n c' + i)
                   = assigned (ccs ! (slotOffset n c' + i)) c' (spec_tile (slotCount n c') i)"
    using old new by (simp add: less_Suc_eq)
  have rest: "\<forall>s. slotOffset n (Suc c) \<le> s \<longrightarrow> ccs2 ! s = ccs ! s"
    using q1 q2 by (simp add: slotOffset_Suc)
  show ?case using step l1 l2 all rest by auto
qed


text \<open>
  Claim C5. For \<open>n\<close> contexts to lay out, with at least \<open>n\<close> contexts in the list and at most
  nine per channel (\<open>n \<le> 36\<close>), \<open>setupLayoutBounds\<close> returns normally and logs nothing;
  the four channel counts sum to \<open>n\<close>; channel \<open>c\<close> receives \<open>floor(n/4)\<close> contexts plus one
  if \<open>c < n mod 4\<close>, in list order, and the \<open>i\<close>-th of a channel with \<open>k\<close> contexts gets the
  channel number and the tile \<open>spec_tile k i\<close>: the unit square, a half, a quarter tile or
  a tile of the 3x3 grid. The contexts from position \<open>n\<close> on are unchanged.
\<close>

theorem setupLayoutBounds_slots:
  assumes "n \<le> length ccs" "n \<le> 36"
  shows "\<exists>ccs'. setupLayoutBounds ccs n = Inr (ccs', [])
           \<and> length ccs' = length ccs
           \<and> slotCount n 0 + slotCount n 1 + slotCount n 2 + slotCount n 3 = n
           \<and> (\<forall>c<4. \<forall>i<slotCount n c.
                 ccs' ! (slotOffset n c + i)
                   = (ccs ! (slotOffset n c + i))
                       \<lparr>layoutChannelNo := Some c, layoutBounds := spec_tile (slotCount n c) i\<rparr>)
           \<and> (\<forall>s. n \<le> s \<longrightarrow> ccs' ! s = ccs ! s)"
proof -
  from channelLoop_prefix[OF assms, of 4] obtain ccs' where
    r: "channelLoop (n div 4) (n mod 4) [0..<4] (ccs, 0, []) = Inr (ccs', slotOffset n 4, [])"
    and l: "length ccs' = length ccs"
    and p: "\<forall>c'<4. \<forall>i<slotCount n c'.
                 ccs' ! (slotOffset n c' + i)
                   = assigned (ccs ! (slotOffset n c' + i)) c' (spec_tile (slotCount n c') i)"
    and q: "\<forall>s. slotOffset n 4 \<le> s \<longrightarrow> ccs' ! s = ccs ! s"
    by auto
  have s: "setupLayoutBounds ccs n = Inr (ccs', [])"
    using r by (simp add: setupLayoutBounds_def ColorChannelCount_def)
  have t: "slotCount n 0 + slotCount n 1 + slotCount n 2 + slotCount n 3 = n"
    by (rule slotCount_sum)
  show ?thesis
    using s l t p q unfolding assigned_def slotOffset_4 by blast
qed


text \<open>
  Claim C5, an instance: \<open>n = 5\<close> on six contexts gives the distribution 2, 1, 1, 1; the
  first two contexts get the halves of channel 0, the fifth the whole of channel 3, the
  sixth nothing.
\<close>

theorem setupLayoutBounds_slots_witness:
  "(5::nat) \<le> length (replicate 6 (CubismClippingContext_new [] 0)) \<and> (5::nat) \<le> 36
   \<and> map (slotCount 5) [0, 1, 2, 3] = [2, 1, 1, 1]
   \<and> (\<exists>ccs'. setupLayoutBounds (replicate 6 (CubismClippingContext_new [] 0)) 5 = Inr (ccs', [])
        \<and> length ccs' = 6
        \<and> layoutChannelNo (ccs' ! 0) = Some 0 \<and> layoutBounds (ccs' ! 0) = spec_tile 2 0
        \<and> layoutChannelNo (ccs' ! 1) = Some 0 \<and> layoutBounds (ccs' ! 1) = spec_tile 2 1
        \<and> layoutChannelNo (ccs' ! 4) = Some 3 \<and> layoutBounds (ccs' ! 4) = spec_tile 1 0
        \<and> ccs' ! 5 = CubismClippingContext_new [] 0)"
proof -
  let ?ccs = "replicate 6 (CubismClippingContext_new [] 0)"
  have c: "map (slotCount 5) [0, 1, 2, 3] = [2, 1, 1, 1]"
    by (simp add: slotCount_def)
  have sc: "slotCount 5 0 = 2" "slotCount 5 3 = 1" by (simp_all add: slotCount_def)
  have o: "slotOffset 5 0 = 0" "slotOffset 5 3 = 4"
    by (simp_all add: slotOffset_def slotCount_def upt_conv_Cons)
  from setupLayoutBounds_slots[of 5 ?ccs] obtain ccs' where
    r: "setupLayoutBounds ?ccs 5 = Inr (ccs', [])" "length ccs' = length ?ccs"
    and p: "\<forall>c<4. \<forall>i<slotCount 5 c.
                 ccs' ! (slotOffset 5 c + i)
                   = (?ccs ! (slotOffset 5 c + i))
                       \<lparr>layoutChannelNo := Some c, layoutBounds := spec_tile (slotCount 5 c) i\<rparr>"
    and q: "\<forall>s. 5 \<le> s \<longrightarrow> ccs' ! s = ?ccs ! s"
    by auto
  have p0: "ccs' ! 0 = (?ccs ! 0)\<lparr>layoutChannelNo := Some 0, layoutBounds := spec_tile 2 0\<rparr>"
    using p[rule_format, of 0 0] sc o by simp
  have p1: "ccs' ! 1 = (?ccs ! 1)\<lparr>layoutChannelNo := Some 0, layoutBounds := spec_tile 2 1\<rparr>"
    using p[rule_format, of 0 1] sc o by simp
  have p4: "ccs' ! 4 = (?ccs ! 4)\<lparr>layoutChannelNo := Some 3, layoutBounds := spec_tile 1 0\<rparr>"
    using p[rule_format, of 3 0] sc o by simp
  have p5: "ccs' ! 5 = CubismClippingContext_new [] 0"
    using q[rule_format, of 5] by simp
  show ?thesis using c r p0 p1 p4 p5 by simp
qed


section \<open>setupClippingContext: the matrix for the mask\<close>

lemma upt16: "[0..<16] = [0,1,2,3,4,5,6,7,8,9,10,11,12,13,14,15::nat]"
  by (simp add: upt_conv_Cons)

lemma upt4: "[0..<4] = [0,1,2,3::nat]"
  by (simp add: upt_conv_Cons)

lemma translateRelative_affine:
  "translateRelative [a, 0, 0, 0,  0, d, 0, 0,  0, 0, 1, 0,  e, f, 0, 1] tx ty
     = [a, 0, 0, 0,  0, d, 0, 0,  0, 0, 1, 0,  tx * a + e, ty * d + f, 0, 1]"
  by (simp add: translateRelative_def multiply_def upt16 upt4)

lemma scaleRelative_affine:
  "scaleRelative [a, 0, 0, 0,  0, d, 0, 0,  0, 0, 1, 0,  e, f, 0, 1] sx sy
     = [sx * a, 0, 0, 0,  0, sy * d, 0, 0,  0, 0, 1, 0,  e, f, 0, 1]"
  by (simp add: scaleRelative_def multiply_def upt16 upt4)

lemma transformXY_affine:
  "transformXY [a, 0, 0, 0,  0, d, 0, 0,  0, 0, 1, 0,  e, f, 0, 1] (px, py) = (a * px + e, d * py + f)"
  by (simp add: transformXY_def)

lemma matrixForMask_affine:
  "matrixForMask (setupMatrices cc) =
     (let l = layoutBounds cc; b = boundsOnModel cc;
          sx = rect_width l / rect_width b; sy = rect_height l / rect_height b
      in [sx * 2, 0, 0, 0,  0, sy * 2, 0, 0,  0, 0, 1, 0,
          - rect_x b * (sx * 2) + (rect_x l * 2 + (- 1)),
          - rect_y b * (sy * 2) + (rect_y l * 2 + (- 1)), 0, 1])"
  by (simp add: setupMatrices_def calcMatrix_def CubismMatrix44_new_def Let_def
      translateRelative_affine scaleRelative_affine)

lemma boundsOnModel_width:
  "rect_width (boundsOnModel cc) = rect_width (allClippedDrawRect cc) * 1.1"
  "rect_height (boundsOnModel cc) = rect_height (allClippedDrawRect cc) * 1.1"
  by (simp_all add: boundsOnModel_def expand_def MARGIN_def)

lemma corners:
  assumes w: "rect_width (allClippedDrawRect cc) \<noteq> 0" and h: "rect_height (allClippedDrawRect cc) \<noteq> 0"
  defines "b \<equiv> boundsOnModel cc" and "l \<equiv> layoutBounds cc" and "M \<equiv> matrixForMask (setupMatrices cc)"
  shows "transformXY M (rect_x b, rect_y b) = (2 * rect_x l - 1, 2 * rect_y l - 1)"
    and "transformXY M (getRight b, rect_y b) = (2 * (rect_x l + rect_width l) - 1, 2 * rect_y l - 1)"
    and "transformXY M (rect_x b, getBottom b) = (2 * rect_x l - 1, 2 * (rect_y l + rect_height l) - 1)"
    and "transformXY M (getRight b, getBottom b) = (2 * (rect_x l + rect_width l) - 1, 2 * (rect_y l + rect_height l) - 1)"
proof -
  have bw: "rect_width b \<noteq> 0" and bh: "rect_height b \<noteq> 0"
    using w h by (simp_all add: b_def boundsOnModel_width)
  show "transformXY M (rect_x b, rect_y b) = (2 * rect_x l - 1, 2 * rect_y l - 1)"
    unfolding M_def matrixForMask_affine Let_def transformXY_affine b_def[symmetric] l_def[symmetric]
    by (simp add: algebra_simps)
  show "transformXY M (getRight b, rect_y b) = (2 * (rect_x l + rect_width l) - 1, 2 * rect_y l - 1)"
    unfolding M_def matrixForMask_affine Let_def transformXY_affine b_def[symmetric] l_def[symmetric] getRight_def
    using bw by (simp add: field_simps)
  show "transformXY M (rect_x b, getBottom b) = (2 * rect_x l - 1, 2 * (rect_y l + rect_height l) - 1)"
    unfolding M_def matrixForMask_affine Let_def transformXY_affine b_def[symmetric] l_def[symmetric] getBottom_def
    using bh by (simp add: field_simps)
  show "transformXY M (getRight b, getBottom b) = (2 * (rect_x l + rect_width l) - 1, 2 * (rect_y l + rect_height l) - 1)"
    unfolding M_def matrixForMask_affine Let_def transformXY_affine b_def[symmetric] l_def[symmetric] getRight_def getBottom_def
    using bw bh by (simp add: field_simps)
qed


text \<open>
  Claim C6, in exact arithmetic. After \<open>setupClippingContext\<close> returns, for every context
  of the mask list that is in use and whose bounding rectangle has non-zero width and
  height, \<open>matrixForMask\<close> maps the four corners of the rectangle expanded by the 5% margin
  onto the four corners of the layout rectangle after the remap from \<open>0..1\<close> to \<open>-1..1\<close>:
  \<open>(2 lx - 1, 2 ly - 1)\<close> .. \<open>(2 (lx + lw) - 1, 2 (ly + lh) - 1)\<close>.
\<close>

theorem matrixForMask_corners:
  assumes r: "setupClippingContext C model m = Inr (m', draws, lg)"
    and i: "i < length (clippingContextListForMask m')"
    and cc: "cc = clippingContextListForMask m' ! i"
    and u: "isUsing cc = Some True"
    and w: "rect_width (allClippedDrawRect cc) \<noteq> 0"
    and h: "rect_height (allClippedDrawRect cc) \<noteq> 0"
  shows "transformXY (matrixForMask cc) (rect_x (boundsOnModel cc), rect_y (boundsOnModel cc))
           = (2 * rect_x (layoutBounds cc) - 1, 2 * rect_y (layoutBounds cc) - 1)
       \<and> transformXY (matrixForMask cc) (getRight (boundsOnModel cc), rect_y (boundsOnModel cc))
           = (2 * (rect_x (layoutBounds cc) + rect_width (layoutBounds cc)) - 1,
              2 * rect_y (layoutBounds cc) - 1)
       \<and> transformXY (matrixForMask cc) (rect_x (boundsOnModel cc), getBottom (boundsOnModel cc))
           = (2 * rect_x (layoutBounds cc) - 1,
              2 * (rect_y (layoutBounds cc) + rect_height (layoutBounds cc)) - 1)
       \<and> transformXY (matrixForMask cc) (getRight (boundsOnModel cc), getBottom (boundsOnModel cc))
           = (2 * (rect_x (layoutBounds cc) + rect_width (layoutBounds cc)) - 1,
              2 * (rect_y (layoutBounds cc) + rect_height (layoutBounds cc)) - 1)"
proof -
  let ?ccs1 = "map (calcClippedDrawTotalBounds C model) (clippingContextListForMask m)"
  let ?n = "length (filter (\<lambda>cc. truthy (isUsing cc)) ?ccs1)"
  have pos: "?n > 0"
  proof (rule ccontr)
    assume "\<not> ?n > 0"
    then have z: "?n = 0" by simp
    have "setupClippingContext C model m
            = Inr (m\<lparr>currentFrameNo := Suc (currentFrameNo m),
                      clippingContextListForMask := ?ccs1\<rparr>, [], [])"
      unfolding setupClippingContext_def Let_def z by simp
    then have "clippingContextListForMask m' = ?ccs1"
      using r by auto
    then have "cc \<in> set ?ccs1" using i cc by (metis nth_mem)
    moreover have "\<forall>x \<in> set ?ccs1. \<not> truthy (isUsing x)"
      using z by (simp add: filter_empty_conv)
    ultimately show False using u by (auto simp: truthy_def)
  qed
  define res where "res = setupLayoutBounds ?ccs1 ?n"
  have e: "(case res of
              Inl e \<Rightarrow> Inl e
            | Inr (ccs2, lg) \<Rightarrow>
                Inr (m\<lparr>currentFrameNo := Suc (currentFrameNo m),
                        clippingContextListForMask := ?ccs1,
                        clippingContextListForMask := map setupMatrices ccs2\<rparr>,
                     concat (map (\<lambda>(clipIndex, cc). maskDraws model clipIndex cc)
                               (zip [0..<length (map setupMatrices ccs2)] (map setupMatrices ccs2))),
                     lg)) = Inr (m', draws, lg)"
    using r unfolding setupClippingContext_def Let_def if_P[OF pos] res_def .
  obtain ccs2 lg2 where l: "res = Inr (ccs2, lg2)"
    using e by (cases res) auto
  have m': "clippingContextListForMask m' = map setupMatrices ccs2"
    using e unfolding l by auto
  have i2: "i < length ccs2" using i m' by simp
  then have c2: "cc = setupMatrices (ccs2 ! i)" using cc m' by simp
  have same: "boundsOnModel cc = boundsOnModel (ccs2 ! i)" "layoutBounds cc = layoutBounds (ccs2 ! i)"
    "allClippedDrawRect cc = allClippedDrawRect (ccs2 ! i)"
    by (simp_all add: c2 setupMatrices_fields boundsOnModel_def)
  have w2: "rect_width (allClippedDrawRect (ccs2 ! i)) \<noteq> 0"
    and h2: "rect_height (allClippedDrawRect (ccs2 ! i)) \<noteq> 0"
    using w h same by simp_all
  show ?thesis
    unfolding same(1,2) unfolding c2
    using corners[OF w2 h2] by simp
qed


lemma example_frame:
  "\<not> isl (setupClippingContext exampleConstant (exampleModel 0) exampleManager)
   \<and> map (\<lambda>cc. (isUsing cc, layoutChannelNo cc, layoutBounds cc, allClippedDrawRect cc))
        (clippingContextListForMask
           (fst (projr (setupClippingContext exampleConstant (exampleModel 0) exampleManager))))
     = [(Some True, Some 0, \<lparr>rect_x = 0, rect_y = 0, rect_width = 1, rect_height = 1\<rparr>,
         \<lparr>rect_x = 0, rect_y = 0, rect_width = 1, rect_height = 2\<rparr>),
        (Some True, Some 1, \<lparr>rect_x = 0, rect_y = 0, rect_width = 1, rect_height = 1\<rparr>,
         \<lparr>rect_x = 0, rect_y = 0, rect_width = 1, rect_height = 2\<rparr>)]"
  by (simp add: setupClippingContext_def example_bounds Let_def truthy_def
      addClippedDrawable_def CubismClippingContext_new_def
      setupLayoutBounds_def ColorChannelCount_def upt_conv_Cons layoutChannel_def assignLayout_def
      setupMatrices_fields layoutRect_def)


text \<open>
  Claim C6, an instance: in the example model with all vertices present, the first context
  is in use with the rectangle \<open>(0, 0, 1, 2)\<close> and the whole unit square as layout; the
  corners \<open>(-0.05, -0.1)\<close> and \<open>(1.05, 2.1)\<close> of the expanded rectangle go to \<open>(-1, -1)\<close> and
  \<open>(1, 1)\<close>.
\<close>

theorem matrixForMask_corners_witness:
  "\<not> isl (setupClippingContext exampleConstant (exampleModel 0) exampleManager)
   \<and> isUsing (clippingContextListForMask
        (fst (projr (setupClippingContext exampleConstant (exampleModel 0) exampleManager))) ! 0) = Some True
   \<and> allClippedDrawRect (clippingContextListForMask
        (fst (projr (setupClippingContext exampleConstant (exampleModel 0) exampleManager))) ! 0)
       = \<lparr>rect_x = 0, rect_y = 0, rect_width = 1, rect_height = 2\<rparr>
   \<and> transformXY (matrixForMask (clippingContextListForMask
        (fst (projr (setupClippingContext exampleConstant (exampleModel 0) exampleManager))) ! 0))
        (- 0.05, - 0.1) = (- 1, - 1)
   \<and> transformXY (matrixForMask (clippingContextListForMask
        (fst (projr (setupClippingContext exampleConstant (exampleModel 0) exampleManager))) ! 0))
        (1.05, 2.1) = (1, 1)"
proof -
  define R where "R = setupClippingContext exampleConstant (exampleModel 0) exampleManager"
  define m' where "m' = fst (projr R)"
  define cc where "cc = clippingContextListForMask m' ! 0"
  have n: "\<not> isl R"
    and f: "map (\<lambda>cc. (isUsing cc, layoutChannelNo cc, layoutBounds cc, allClippedDrawRect cc))
              (clippingContextListForMask m')
     = [(Some True, Some 0, \<lparr>rect_x = 0, rect_y = 0, rect_width = 1, rect_height = 1\<rparr>,
         \<lparr>rect_x = 0, rect_y = 0, rect_width = 1, rect_height = 2\<rparr>),
        (Some True, Some 1, \<lparr>rect_x = 0, rect_y = 0, rect_width = 1, rect_height = 1\<rparr>,
         \<lparr>rect_x = 0, rect_y = 0, rect_width = 1, rect_height = 2\<rparr>)]"
    using example_frame unfolding R_def m'_def by blast+
  from n have "R = Inr (projr R)" by simp
  then have r: "setupClippingContext exampleConstant (exampleModel 0) exampleManager
                  = Inr (m', fst (snd (projr R)), snd (snd (projr R)))"
    unfolding m'_def by (simp add: R_def[symmetric])
  obtain c0 c1 where cs: "clippingContextListForMask m' = [c0, c1]"
    using f by (auto simp: map_eq_Cons_conv)
  have len: "0 < length (clippingContextListForMask m')"
    by (simp add: cs)
  have u: "isUsing cc = Some True"
    and l: "layoutBounds cc = \<lparr>rect_x = 0, rect_y = 0, rect_width = 1, rect_height = 1\<rparr>"
    and a: "allClippedDrawRect cc = \<lparr>rect_x = 0, rect_y = 0, rect_width = 1, rect_height = 2\<rparr>"
    using f unfolding cc_def cs by simp_all
  have w: "rect_width (allClippedDrawRect cc) \<noteq> 0" and h: "rect_height (allClippedDrawRect cc) \<noteq> 0"
    by (simp_all add: a)
  have b: "boundsOnModel cc = \<lparr>rect_x = - 0.05, rect_y = - 0.1, rect_width = 1.1, rect_height = 2.2\<rparr>"
    by (simp add: boundsOnModel_def a expand_def MARGIN_def)
  have t: "transformXY (matrixForMask cc) (- 0.05, - 0.1) = (- 1, - 1)
         \<and> transformXY (matrixForMask cc) (1.05, 2.1) = (1, 1)"
    using matrixForMask_corners[OF r len cc_def u w h]
    by (simp add: b l getRight_def getBottom_def)
  show ?thesis
    using n u a t unfolding cc_def m'_def R_def by blast
qed


section \<open>doDrawModel: the order of the screen pass\<close>

lemma drawLoop_in_range:
  "\<forall>i \<in> set js. i < length v \<Longrightarrow>
   drawLoop model v js = Some (filter (getDrawableDynamicFlagIsVisible model) (map (nth v) js))"
  by (induction js) (auto simp: js_index_def)

lemma csmVector_set_length: "length (csmVector_set v idx val) = length v"
  by (simp add: csmVector_set_def split: option.splits)

lemma scatter_Suc: "scatter ro v0 (Suc k) = csmVector_set (scatter ro v0 k) (js_index ro k) k"
  by (simp add: scatter_def)

lemma scatter_length: "length (scatter ro v0 k) = length v0"
  by (induction k) (simp_all add: scatter_Suc csmVector_set_length, simp add: scatter_def)

lemma scatter_nth:
  assumes d: "distinct ro" and r: "\<forall>x \<in> set ro. 0 \<le> x \<and> x < int (length v0)" and k: "k \<le> length ro"
  shows "\<forall>i<k. scatter ro v0 k ! nat (ro ! i) = i"
  using k
proof (induction k)
  case 0
  then show ?case by simp
next
  case (Suc k)
  have kk: "k < length ro" using Suc.prems by simp
  have rk: "0 \<le> ro ! k" "ro ! k < int (length v0)" using r kk by auto
  have step: "scatter ro v0 (Suc k) = (scatter ro v0 k)[nat (ro ! k) := k]"
    using kk rk by (simp add: scatter_Suc js_index_def csmVector_set_def scatter_length)
  show ?case
  proof (intro allI impI)
    fix i assume i: "i < Suc k"
    show "scatter ro v0 (Suc k) ! nat (ro ! i) = i"
    proof (cases "i = k")
      case True
      then show ?thesis using rk by (simp add: step scatter_length)
    next
      case False
      then have ik: "i < k" using i by simp
      then have "ro ! i \<noteq> ro ! k" using d kk by (simp add: nth_eq_iff_index_eq)
      moreover have "0 \<le> ro ! i" using r ik kk by auto
      ultimately have "nat (ro ! i) \<noteq> nat (ro ! k)" using rk by simp
      then show ?thesis using Suc.IH ik kk by (simp add: step)
    qed
  qed
qed

lemma scatter_is_sort:
  assumes p: "mset ro = mset (map int [0..<n])" and l: "length v0 = n"
  shows "scatter ro v0 n = sort_key (\<lambda>i. ro ! i) [0..<n]"
proof -
  let ?v = "scatter ro v0 n" and ?w = "sort_key (\<lambda>i. ro ! i) [0..<n]"
  have len: "length ro = n" using mset_eq_length[OF p] by simp
  have "distinct (map int [0..<n])" by (simp add: distinct_map)
  then have d: "distinct ro" using mset_eq_imp_distinct_iff[OF p] by simp
  have s: "set ro = int ` {0..<n}" using mset_eq_setD[OF p] by simp
  have r: "\<forall>x \<in> set ro. 0 \<le> x \<and> x < int (length v0)" using s l by auto
  have nth: "\<forall>i<n. ?v ! nat (ro ! i) = i"
    using scatter_nth[OF d r, of n] len by simp
  have vlen: "length ?v = n" by (simp add: scatter_length l)
  have key_v: "\<forall>s<n. ?v ! s < n \<and> ro ! (?v ! s) = int s"
  proof (intro allI impI)
    fix s assume "s < n"
    then have "int s \<in> set ro" using s by simp
    then obtain i where i: "i < n" "ro ! i = int s" using len by (auto simp: in_set_conv_nth)
    then have "?v ! s = i" using nth by force
    then show "?v ! s < n \<and> ro ! (?v ! s) = int s" using i by simp
  qed
  have mv: "map (\<lambda>i. ro ! i) ?v = map int [0..<n]"
    using key_v vlen by (intro nth_equalityI) simp_all
  have "mset (map (\<lambda>i. ro ! i) ?w) = mset (map (\<lambda>i. ro ! i) [0..<n])"
    by simp
  also have "map (\<lambda>i. ro ! i) [0..<n] = ro"
    unfolding len[symmetric] by (rule map_nth)
  finally have mw0: "mset (map (\<lambda>i. ro ! i) ?w) = mset ro" .
  have "sort ro = map (\<lambda>i. ro ! i) ?w"
    by (rule properties_for_sort[OF mw0]) (simp add: sorted_sort_key)
  moreover have "sort ro = map int [0..<n]"
    by (rule properties_for_sort[OF p[symmetric]]) (simp add: sorted_map sorted_wrt_iff_nth_less)
  ultimately have mw: "map (\<lambda>i. ro ! i) ?w = map int [0..<n]" by simp
  have sv: "set ?v \<subseteq> {0..<n}" using key_v vlen by (auto simp: in_set_conv_nth)
  have sw: "set ?w \<subseteq> {0..<n}" by simp
  have "inj_on (\<lambda>i. ro ! i) {0..<n}"
    using d len by (auto simp: inj_on_def nth_eq_iff_index_eq)
  then have "inj_on (\<lambda>i. ro ! i) (set ?v \<union> set ?w)"
    using sv sw by (meson Un_least inj_on_subset)
  then show ?thesis using mv mw by (intro map_inj_on[of "\<lambda>i. ro ! i"]) simp_all
qed


text \<open>
  Claim C2, as the code has it. When the render orders of the \<open>n\<close> drawables are a
  permutation of \<open>0 .. n-1\<close> (and the index list has its \<open>n\<close> slots), the screen pass leaves
  in the index list the stable sort of the drawable indices by render order and draws
  the visible drawables in that order.
\<close>

theorem screenPass_permutation:
  assumes "mset (getDrawableRenderOrders model) = mset (map int [0..<getDrawableCount model])"
    and "length sortedDrawableIndexList = getDrawableCount model"
  shows "screenPass model sortedDrawableIndexList =
     Some (sort_key (\<lambda>i. getDrawableRenderOrders model ! i) [0..<getDrawableCount model],
           filter (getDrawableDynamicFlagIsVisible model)
             (sort_key (\<lambda>i. getDrawableRenderOrders model ! i) [0..<getDrawableCount model]))"
proof -
  let ?n = "getDrawableCount model"
  let ?w = "sort_key (\<lambda>i. getDrawableRenderOrders model ! i) [0..<?n]"
  have v: "sortDrawableIndexList model sortedDrawableIndexList = ?w"
    using scatter_is_sort[OF assms] by (simp add: sortDrawableIndexList_def scatter_def)
  have lw: "length ?w = ?n" by simp
  have "drawLoop model ?w [0..<?n]
          = Some (filter (getDrawableDynamicFlagIsVisible model) (map (nth ?w) [0..<?n]))"
    by (rule drawLoop_in_range) simp
  also have "map (nth ?w) [0..<?n] = ?w"
    using map_nth[of ?w] lw by simp
  finally show ?thesis by (simp add: screenPass_def v Let_def)
qed


text \<open>Claim C2, an instance: the render orders \<open>[3,1,2,0]\<close> give the draw order 3, 1, 2, 0.\<close>

theorem screenPass_permutation_witness:
  "mset (getDrawableRenderOrders (orderModel [3, 1, 2, 0]))
     = mset (map int [0..<getDrawableCount (orderModel [3, 1, 2, 0])])
   \<and> length (csmVector_resize_new 4 (0::nat)) = getDrawableCount (orderModel [3, 1, 2, 0])
   \<and> screenPass (orderModel [3, 1, 2, 0]) (csmVector_resize_new 4 0)
       = Some ([3, 1, 2, 0], [3, 1, 2, 0])"
proof -
  have m: "mset (getDrawableRenderOrders (orderModel [3, 1, 2, 0]))
     = mset (map int [0..<getDrawableCount (orderModel [3, 1, 2, 0])])"
    by (simp add: orderModel_def upt_conv_Cons add_mset_commute)
  have l: "length (csmVector_resize_new 4 (0::nat)) = getDrawableCount (orderModel [3, 1, 2, 0])"
    by (simp add: orderModel_def csmVector_resize_new_def)
  have s: "sort_key (\<lambda>i. getDrawableRenderOrders (orderModel [3, 1, 2, 0]) ! i)
             [0..<getDrawableCount (orderModel [3, 1, 2, 0])] = [3, 1, 2, 0]"
    by (simp add: orderModel_def upt_conv_Cons)
  show ?thesis
    using screenPass_permutation[OF m l] m l unfolding s
    by (simp add: orderModel_def)
qed


text \<open>
  Claim C2 as stated fails for the render orders \<open>[3,1,2,1]\<close> on a freshly initialised
  renderer: the screen pass draws the drawables 0, 3, 2, 0, while the stable sort of the
  indices by render order is 1, 3, 2, 0. Drawable 1 is not drawn and drawable 0 is drawn
  twice.
\<close>

theorem screenPass_stable_sort_counterexample:
  "screenPass (orderModel [3, 1, 2, 1]) (csmVector_resize_new 4 0) = Some ([0, 3, 2, 0], [0, 3, 2, 0])
   \<and> sort_key (nth [3, 1, 2, 1 :: int]) [0..<4] = [1, 3, 2, 0]"
proof -
  have "screenPass (orderModel [3, 1, 2, 1]) (csmVector_resize_new 4 0) = Some ([0, 3, 2, 0], [0, 3, 2, 0])"
    by code_simp
  moreover have "sort_key (nth [3, 1, 2, 1 :: int]) [0..<4] = [1, 3, 2, 0]"
    by (simp add: upt_conv_Cons)
  ultimately show ?thesis by simp
qed


section \<open>The commands sent to the graphics context\<close>

lemma calls_emit: "calls (emit cs gl) = calls gl @ cs"
  by (simp add: emit_def)

lemma emit_emit: "emit cs2 (emit cs1 gl) = emit (cs1 @ cs2) gl"
  by (simp add: emit_def)

lemma emit_Nil: "emit [] gl = gl"
  by (simp add: emit_def)

lemma send_accepted: "list_all accepts cs \<Longrightarrow> send cs gl = (None, emit cs gl)"
  by (induction cs arbitrary: gl) (simp_all add: emit_emit emit_Nil)

lemma send_None: "send cs gl = (None, gl') \<Longrightarrow> list_all accepts cs \<and> gl' = emit cs gl"
proof (induction cs arbitrary: gl)
  case Nil
  then show ?case by (simp add: emit_Nil)
next
  case (Cons c cs)
  from Cons.prems have a: "accepts c" and s: "send cs (emit [c] gl) = (None, gl')"
    by (simp_all split: if_splits)
  from Cons.IH[OF s] show ?case using a by (simp add: emit_emit)
qed

lemma compileShaderSource_ok:
  assumes "createOk d (nextObject gl)"
  shows "\<exists>gl'. compileShaderSource d gl t src
           = (Inr (if compileStatus d t src then GlObject (nextObject gl) else JsNull), gl', [])
         \<and> drawCommands gl' = drawCommands gl \<and> nextObject gl' = Suc (nextObject gl)"
  using assms
  by (simp add: compileShaderSource_def fresh_def sendThen_def bindRun_def isObject_def
      CubismLogError_def emit_def drawCommands_def)

lemma loadShaderProgram_ok:
  assumes ok: "\<forall>n. createOk d n"
  shows "\<exists>gl'. loadShaderProgram d gl v f
           = (Inr (if builds d v f then GlObject (nextObject gl) else JsZero), gl',
              if builds d v f then []
              else [if compileStatus d VERTEX_SHADER v \<and> compileStatus d FRAGMENT_SHADER f
                    then ''Failed to link program: {0}'' else ''Vertex shader compile error!''])
         \<and> drawCommands gl' = drawCommands gl"
proof -
  let ?p = "GlObject (nextObject gl)"
  let ?g0 = "emit [CreateProgram ?p] (gl\<lparr>nextObject := Suc (nextObject gl)\<rparr>)"
  from compileShaderSource_ok[of d ?g0 VERTEX_SHADER v] ok obtain g1 where
    v: "compileShaderSource d ?g0 VERTEX_SHADER v
          = (Inr (if compileStatus d VERTEX_SHADER v then GlObject (nextObject ?g0) else JsNull), g1, [])"
       "drawCommands g1 = drawCommands ?g0"
    by blast
  from compileShaderSource_ok[of d g1 FRAGMENT_SHADER f] ok obtain g2 where
    f: "compileShaderSource d g1 FRAGMENT_SHADER f
          = (Inr (if compileStatus d FRAGMENT_SHADER f then GlObject (nextObject g1) else JsNull), g2, [])"
       "drawCommands g2 = drawCommands g1"
    by blast
  have g0: "drawCommands ?g0 = drawCommands gl"
    by (simp add: drawCommands_def calls_emit)
  show ?thesis
    using ok v f g0
    by (simp add: loadShaderProgram_def fresh_def bindRun_def sendThen_def isObject_def
        CubismLogError_def builds_def drawCommands_def calls_emit)
qed


section \<open>generateShaders: programs that build and programs that do not\<close>

lemma commonShaderSet_zero:
  assumes "\<not> isObject prog"
  shows "commonShaderSet gl prog = (Inl TypeError, gl, [])"
  using assms by (simp add: commonShaderSet_def sendThen_def)

lemma generateShader_fails:
  assumes ok: "\<forall>n. createOk d n" and nb: "\<not> variantBuilds d index"
  shows "generateShader d index gl
         = (Inl TypeError,
            snd (loadShaderProgram d gl (fst (variantSources index)) (snd (variantSources index))))"
proof -
  from loadShaderProgram_ok[OF ok, of gl "fst (variantSources index)" "snd (variantSources index)"]
  obtain g m where
    l: "loadShaderProgram d gl (fst (variantSources index)) (snd (variantSources index))
          = (Inr JsZero, g, [m])"
    using nb by (auto simp: variantBuilds_def)
  show ?thesis
    using l
    by (cases index)
       (simp_all add: generateShader_def variantSources_def isInvertedShader_def bindRun_def
          commonShaderSet_zero isObject_def)
qed

lemma generateShader_builds:
  assumes ok: "\<forall>n. createOk d n" and b: "variantBuilds d index"
  shows "\<exists>ss gl'. generateShader d index gl = (Inr ss, gl', [])
           \<and> isObject (shaderProgram ss) \<and> drawCommands gl' = drawCommands gl"
proof -
  from loadShaderProgram_ok[OF ok, of gl "fst (variantSources index)" "snd (variantSources index)"]
  obtain g where
    l: "loadShaderProgram d gl (fst (variantSources index)) (snd (variantSources index))
          = (Inr (GlObject (nextObject gl)), g, [])"
    and q: "drawCommands g = drawCommands gl"
    using b by (auto simp: variantBuilds_def)
  show ?thesis
    using l q
    by (cases index)
       (simp_all add: generateShader_def variantSources_def isInvertedShader_def bindRun_def
          commonShaderSet_def sendThen_def isObject_def drawCommands_def calls_emit)
qed

lemma generateShaders_from_builds:
  assumes ok: "\<forall>n. createOk d n"
  shows "\<forall>index\<in>set names. variantBuilds d index \<Longrightarrow>
         \<forall>k ss. acc k = Some ss \<longrightarrow> isObject (shaderProgram ss) \<Longrightarrow>
         \<exists>sets gl'. generateShaders_from d names acc gl = (Inr sets, gl', [])
           \<and> dom sets = dom acc \<union> ShaderNames_value ` set names
           \<and> (\<forall>k ss. sets k = Some ss \<longrightarrow> isObject (shaderProgram ss))
           \<and> drawCommands gl' = drawCommands gl"
proof (induction names arbitrary: acc gl)
  case Nil
  then show ?case by simp
next
  case (Cons index names)
  from generateShader_builds[OF ok, of index gl] Cons.prems(1) obtain ss g where
    s: "generateShader d index gl = (Inr ss, g, [])" "isObject (shaderProgram ss)"
       "drawCommands g = drawCommands gl"
    by auto
  let ?acc = "acc(ShaderNames_value index \<mapsto> ss)"
  have a: "\<forall>k s. ?acc k = Some s \<longrightarrow> isObject (shaderProgram s)"
    using Cons.prems(2) s(2) by auto
  have n: "\<forall>index\<in>set names. variantBuilds d index"
    using Cons.prems(1) by simp
  from Cons.IH[OF n a, of g] obtain sets gl' where
    r: "generateShaders_from d names ?acc g = (Inr sets, gl', [])"
       "dom sets = dom ?acc \<union> ShaderNames_value ` set names"
       "\<forall>k ss. sets k = Some ss \<longrightarrow> isObject (shaderProgram ss)"
       "drawCommands gl' = drawCommands g"
    by blast
  have "generateShaders_from d (index # names) acc gl = (Inr sets, gl', [])"
    by (simp add: s(1) r(1))
  moreover have "dom sets = dom acc \<union> ShaderNames_value ` set (index # names)"
    using r(2) by auto
  ultimately show ?case using r(3,4) s(3) by auto
qed

lemma generateShaders_from_fails:
  assumes ok: "\<forall>n. createOk d n"
  shows "\<exists>index\<in>set names. \<not> variantBuilds d index \<Longrightarrow>
         \<exists>gl' msgs. generateShaders_from d names acc gl = (Inl TypeError, gl', msgs)
           \<and> msgs \<noteq> []
           \<and> (last msgs = ''Vertex shader compile error!''
              \<or> last msgs = ''Failed to link program: {0}'')
           \<and> drawCommands gl' = drawCommands gl"
proof (induction names arbitrary: acc gl)
  case Nil
  then show ?case by simp
next
  case (Cons index names)
  show ?case
  proof (cases "variantBuilds d index")
    case True
    from generateShader_builds[OF ok True, of gl] obtain ss g where
      s: "generateShader d index gl = (Inr ss, g, [])" "drawCommands g = drawCommands gl"
      by auto
    have "\<exists>index\<in>set names. \<not> variantBuilds d index"
      using Cons.prems True by auto
    from Cons.IH[OF this, of "acc(ShaderNames_value index \<mapsto> ss)" g] obtain gl' msgs where
      r: "generateShaders_from d names (acc(ShaderNames_value index \<mapsto> ss)) g
            = (Inl TypeError, gl', msgs)"
         "msgs \<noteq> []"
         "last msgs = ''Vertex shader compile error!'' \<or> last msgs = ''Failed to link program: {0}''"
         "drawCommands gl' = drawCommands g"
      by blast
    have "generateShaders_from d (index # names) acc gl = (Inl TypeError, gl', msgs)"
      by (simp add: s(1) r(1))
    then show ?thesis using r(2,3,4) s(2) by auto
  next
    case False
    from loadShaderProgram_ok[OF ok, of gl "fst (variantSources index)" "snd (variantSources index)"]
    obtain g m where
      l: "loadShaderProgram d gl (fst (variantSources index)) (snd (variantSources index))
            = (Inr JsZero, g, [m])"
         "m = ''Vertex shader compile error!'' \<or> m = ''Failed to link program: {0}''"
         "drawCommands g = drawCommands gl"
      using False by (auto simp: variantBuilds_def)
    have "generateShaders_from d (index # names) acc gl = (Inl TypeError, g, [m])"
      by (simp add: generateShader_fails[OF ok False] l(1))
    then show ?thesis using l(2,3) by auto
  qed
qed


section \<open>The statements of setupShaderProgram\<close>

lemma steps_Cons_None:
  "steps (f # fs) s = (None, s') \<longleftrightarrow> (\<exists>s1. f s = (None, s1) \<and> steps fs s1 = (None, s'))"
  by (cases "f s") (auto split: option.splits)

lemma sendStep_None:
  "sendStep cs s = (None, s') \<longleftrightarrow> list_all accepts cs \<and> s' = (emit cs (fst s), snd s)"
proof
  assume a: "sendStep cs s = (None, s')"
  obtain e g where g: "send cs (fst s) = (e, g)" by (cases "send cs (fst s)") auto
  with a have "e = None" "s' = (g, snd s)" by (simp_all add: sendStep_def)
  with send_None[of cs "fst s" g] g show "list_all accepts cs \<and> s' = (emit cs (fst s), snd s)"
    by simp
next
  assume "list_all accepts cs \<and> s' = (emit cs (fst s), snd s)"
  then show "sendStep cs s = (None, s')"
    by (simp add: sendStep_def send_accepted)
qed

lemma ensureBuffer_result:
  "fst (ensureBuffer d gl b) \<noteq> JsZero
   \<and> (\<exists>cs. calls (snd (ensureBuffer d gl b)) = calls gl @ cs)"
  by (auto simp: ensureBuffer_def fresh_def calls_emit isObject_def split: glref.splits)

lemma ensureVertex_step:
  "\<exists>gl' bd'. ensureVertex d s = (None, (gl', bd')) \<and> buf_vertex bd' \<noteq> JsZero
     \<and> buf_uv bd' = buf_uv (snd s) \<and> buf_index bd' = buf_index (snd s)
     \<and> (\<exists>cs. calls gl' = calls (fst s) @ cs)"
  using ensureBuffer_result[of d "fst s" "buf_vertex (snd s)"]
  by (simp add: ensureVertex_def case_prod_beta)

lemma ensureUv_step:
  "\<exists>gl' bd'. ensureUv d s = (None, (gl', bd')) \<and> buf_uv bd' \<noteq> JsZero
     \<and> buf_vertex bd' = buf_vertex (snd s) \<and> buf_index bd' = buf_index (snd s)
     \<and> (\<exists>cs. calls gl' = calls (fst s) @ cs)"
  using ensureBuffer_result[of d "fst s" "buf_uv (snd s)"]
  by (simp add: ensureUv_def case_prod_beta)

lemma ensureIndex_step:
  "\<exists>gl' bd'. ensureIndex d s = (None, (gl', bd')) \<and> buf_index bd' \<noteq> JsZero
     \<and> buf_vertex bd' = buf_vertex (snd s) \<and> buf_uv bd' = buf_uv (snd s)
     \<and> (\<exists>cs. calls gl' = calls (fst s) @ cs)"
  using ensureBuffer_result[of d "fst s" "buf_index (snd s)"]
  by (simp add: ensureIndex_def case_prod_beta)

lemma channelFlag_None:
  "setupUniformChannelFlagLocation renderer ss c s = (None, s') \<longleftrightarrow>
     (\<exists>col. getChannelFlagAsColor (clippingManager renderer) (layoutChannelNo c) = Some col
        \<and> s' = (emit [Uniform4f (uniformChannelFlagLocation ss) (col_R col) (col_G col)
                        (col_B col) (col_A col)] (fst s), snd s))"
  by (cases "getChannelFlagAsColor (clippingManager renderer) (layoutChannelNo c)")
     (auto simp: setupUniformChannelFlagLocation_def sendStep_None)

lemma setupUniforms_None:
  assumes "setupUniforms renderer ss baseColor m s = (None, s')"
  shows "snd s' = snd s
     \<and> (\<exists>cs. calls (fst s') = calls (fst s) @ cs
            @ [case clippingContextBufferForMask renderer of
                 None \<Rightarrow> Uniform4f (Some (uniformBaseColorLocation ss))
                           (col_R baseColor) (col_G baseColor) (col_B baseColor) (col_A baseColor)
               | Some c \<Rightarrow> Uniform4f (Some (uniformBaseColorLocation ss))
                           (rect_x (layoutBounds c) * 2 - 1) (rect_y (layoutBounds c) * 2 - 1)
                           (getRight (layoutBounds c) * 2 - 1) (getBottom (layoutBounds c) * 2 - 1)])
     \<and> (\<forall>c. clippingContextBufferForMask renderer = Some c \<longrightarrow>
            getChannelFlagAsColor (clippingManager renderer) (layoutChannelNo c) \<noteq> None)
     \<and> (\<forall>c. clippingContextBufferForMask renderer = None
              \<and> clippingContextBufferForDraw renderer = Some c \<longrightarrow>
            getChannelFlagAsColor (clippingManager renderer) (layoutChannelNo c) \<noteq> None
            \<and> getColorBuffer renderer \<noteq> JsZero)"
proof (cases "clippingContextBufferForMask renderer")
  case (Some c)
  from assms Some show ?thesis
    by (auto simp del: steps.simps(2)
        simp add: setupUniforms_def steps_Cons_None channelFlag_None sendStep_None calls_emit)
next
  case None
  show ?thesis
  proof (cases "clippingContextBufferForDraw renderer")
    case N: None
    from assms None N show ?thesis
      by (auto simp del: steps.simps(2)
          simp add: setupUniforms_def steps_Cons_None sendStep_None calls_emit)
  next
    case (Some c)
    from assms None Some show ?thesis
      by (auto simp del: steps.simps(2)
          simp add: setupUniforms_def steps_Cons_None channelFlag_None sendStep_None
          setupUniformClipMatrixLocation_def calls_emit)
  qed
qed

lemma setupUniforms_ok:
  assumes "\<forall>c. clippingContextBufferForMask renderer = Some c \<longrightarrow>
            getChannelFlagAsColor (clippingManager renderer) (layoutChannelNo c) \<noteq> None"
    "\<forall>c. clippingContextBufferForDraw renderer = Some c \<longrightarrow>
            getChannelFlagAsColor (clippingManager renderer) (layoutChannelNo c) \<noteq> None"
    "getColorBuffer renderer \<noteq> JsZero"
  shows "\<exists>s'. setupUniforms renderer ss baseColor m s = (None, s')"
proof (cases "clippingContextBufferForMask renderer")
  case (Some c)
  with assms(1) obtain col where
    "getChannelFlagAsColor (clippingManager renderer) (layoutChannelNo c) = Some col" by auto
  with Some show ?thesis
    by (simp add: setupUniforms_def setupUniformChannelFlagLocation_def sendStep_def)
next
  case None
  show ?thesis
  proof (cases "clippingContextBufferForDraw renderer")
    case N: None
    with None show ?thesis
      by (simp add: setupUniforms_def sendStep_def)
  next
    case (Some c)
    with assms(2) obtain col where
      "getChannelFlagAsColor (clippingManager renderer) (layoutChannelNo c) = Some col" by auto
    with None Some assms(3) show ?thesis
      by (simp add: setupUniforms_def setupUniformChannelFlagLocation_def sendStep_def
          setupUniformClipMatrixLocation_def)
  qed
qed

lemma draw_steps_None:
  assumes r: "steps
     [sendStep [UseProgram p],
      ensureVertex d,
      (\<lambda>s. sendStep
         [BindBuffer ARRAY_BUFFER (buf_vertex (snd s)),
          BufferData ARRAY_BUFFER (FloatData vertexArray),
          EnableVertexAttribArray (attributePositionLocation ss),
          VertexAttribPointer (attributePositionLocation ss)] s),
      ensureUv d,
      (\<lambda>s. sendStep
         [BindBuffer ARRAY_BUFFER (buf_uv (snd s)),
          BufferData ARRAY_BUFFER (FloatData uvArray),
          EnableVertexAttribArray (attributeTexCoordLocation ss),
          VertexAttribPointer (attributeTexCoordLocation ss),
          ActiveTexture 0, BindTexture textureId,
          Uniform1i (Some (samplerTexture0Location ss)) 0] s),
      ensureIndex d,
      (\<lambda>s. sendStep
         [BindBuffer ELEMENT_ARRAY_BUFFER (buf_index (snd s)),
          BufferData ELEMENT_ARRAY_BUFFER (IndexData indexArray),
          BlendFuncSeparate b1 b2 b3 b4] s),
      setupUniforms renderer ss baseColor m]
     (gl1, bd) = (None, (gl', bd'))"
  shows "UseProgram p \<in> set (calls gl')
     \<and> BindBuffer ARRAY_BUFFER (buf_vertex bd') \<in> set (calls gl')
     \<and> BindBuffer ARRAY_BUFFER (buf_uv bd') \<in> set (calls gl')
     \<and> BindBuffer ELEMENT_ARRAY_BUFFER (buf_index bd') \<in> set (calls gl')
     \<and> BlendFuncSeparate b1 b2 b3 b4 \<in> set (calls gl')
     \<and> last (calls gl')
         = (case clippingContextBufferForMask renderer of
              None \<Rightarrow> Uniform4f (Some (uniformBaseColorLocation ss))
                        (col_R baseColor) (col_G baseColor) (col_B baseColor) (col_A baseColor)
            | Some c \<Rightarrow> Uniform4f (Some (uniformBaseColorLocation ss))
                        (rect_x (layoutBounds c) * 2 - 1) (rect_y (layoutBounds c) * 2 - 1)
                        (getRight (layoutBounds c) * 2 - 1) (getBottom (layoutBounds c) * 2 - 1))
     \<and> p \<noteq> JsZero \<and> textureId \<noteq> JsZero
     \<and> (\<forall>c. clippingContextBufferForMask renderer = Some c \<longrightarrow>
            getChannelFlagAsColor (clippingManager renderer) (layoutChannelNo c) \<noteq> None)
     \<and> (\<forall>c. clippingContextBufferForMask renderer = None
              \<and> clippingContextBufferForDraw renderer = Some c \<longrightarrow>
            getChannelFlagAsColor (clippingManager renderer) (layoutChannelNo c) \<noteq> None
            \<and> getColorBuffer renderer \<noteq> JsZero)"
proof -
  from r obtain s1 s2 s3 s4 s5 s6 s7 where
    1: "sendStep [UseProgram p] (gl1, bd) = (None, s1)"
    and 2: "ensureVertex d s1 = (None, s2)"
    and 3: "sendStep
         [BindBuffer ARRAY_BUFFER (buf_vertex (snd s2)),
          BufferData ARRAY_BUFFER (FloatData vertexArray),
          EnableVertexAttribArray (attributePositionLocation ss),
          VertexAttribPointer (attributePositionLocation ss)] s2 = (None, s3)"
    and 4: "ensureUv d s3 = (None, s4)"
    and 5: "sendStep
         [BindBuffer ARRAY_BUFFER (buf_uv (snd s4)),
          BufferData ARRAY_BUFFER (FloatData uvArray),
          EnableVertexAttribArray (attributeTexCoordLocation ss),
          VertexAttribPointer (attributeTexCoordLocation ss),
          ActiveTexture 0, BindTexture textureId,
          Uniform1i (Some (samplerTexture0Location ss)) 0] s4 = (None, s5)"
    and 6: "ensureIndex d s5 = (None, s6)"
    and 7: "sendStep
         [BindBuffer ELEMENT_ARRAY_BUFFER (buf_index (snd s6)),
          BufferData ELEMENT_ARRAY_BUFFER (IndexData indexArray),
          BlendFuncSeparate b1 b2 b3 b4] s6 = (None, s7)"
    and 8: "setupUniforms renderer ss baseColor m s7 = (None, (gl', bd'))"
    unfolding steps_Cons_None steps.simps(1) by blast
  from 1 have p: "p \<noteq> JsZero" and c1: "calls (fst s1) = calls gl1 @ [UseProgram p]"
    and b1: "snd s1 = bd"
    by (simp_all add: sendStep_None calls_emit)
  from ensureVertex_step[of d s1] 2 obtain cs2 where
    c2: "calls (fst s2) = calls (fst s1) @ cs2"
    by auto
  from 3 have c3: "calls (fst s3) = calls (fst s2) @ [BindBuffer ARRAY_BUFFER (buf_vertex (snd s2)),
          BufferData ARRAY_BUFFER (FloatData vertexArray),
          EnableVertexAttribArray (attributePositionLocation ss),
          VertexAttribPointer (attributePositionLocation ss)]" and b3: "snd s3 = snd s2"
    by (simp_all add: sendStep_None calls_emit)
  from ensureUv_step[of d s3] 4 obtain cs4 where
    c4: "calls (fst s4) = calls (fst s3) @ cs4" and b4: "buf_vertex (snd s4) = buf_vertex (snd s3)"
    by auto
  from 5 have c5: "calls (fst s5) = calls (fst s4) @ [BindBuffer ARRAY_BUFFER (buf_uv (snd s4)),
          BufferData ARRAY_BUFFER (FloatData uvArray),
          EnableVertexAttribArray (attributeTexCoordLocation ss),
          VertexAttribPointer (attributeTexCoordLocation ss),
          ActiveTexture 0, BindTexture textureId,
          Uniform1i (Some (samplerTexture0Location ss)) 0]" and b5: "snd s5 = snd s4"
    and t: "textureId \<noteq> JsZero"
    by (simp_all add: sendStep_None calls_emit)
  from ensureIndex_step[of d s5] 6 obtain cs6 where
    c6: "calls (fst s6) = calls (fst s5) @ cs6" and b6: "buf_vertex (snd s6) = buf_vertex (snd s5)"
      "buf_uv (snd s6) = buf_uv (snd s5)"
    by auto
  from 7 have c7: "calls (fst s7) = calls (fst s6) @ [BindBuffer ELEMENT_ARRAY_BUFFER (buf_index (snd s6)),
          BufferData ELEMENT_ARRAY_BUFFER (IndexData indexArray),
          BlendFuncSeparate b1 b2 b3 b4]" and b7: "snd s7 = snd s6"
    by (simp_all add: sendStep_None calls_emit)
  from setupUniforms_None[OF 8] obtain cs8 where
    b8: "bd' = snd s7"
    and c8: "calls gl' = calls (fst s7) @ cs8
            @ [case clippingContextBufferForMask renderer of
                 None \<Rightarrow> Uniform4f (Some (uniformBaseColorLocation ss))
                           (col_R baseColor) (col_G baseColor) (col_B baseColor) (col_A baseColor)
               | Some c \<Rightarrow> Uniform4f (Some (uniformBaseColorLocation ss))
                           (rect_x (layoutBounds c) * 2 - 1) (rect_y (layoutBounds c) * 2 - 1)
                           (getRight (layoutBounds c) * 2 - 1) (getBottom (layoutBounds c) * 2 - 1)]"
    and sl: "\<forall>c. clippingContextBufferForMask renderer = Some c \<longrightarrow>
            getChannelFlagAsColor (clippingManager renderer) (layoutChannelNo c) \<noteq> None"
      "\<forall>c. clippingContextBufferForMask renderer = None
              \<and> clippingContextBufferForDraw renderer = Some c \<longrightarrow>
            getChannelFlagAsColor (clippingManager renderer) (layoutChannelNo c) \<noteq> None
            \<and> getColorBuffer renderer \<noteq> JsZero"
    by auto
  have v: "buf_vertex bd' = buf_vertex (snd s2)"
    using b8 b7 b6 b5 b4 b3 by simp
  have u: "buf_uv bd' = buf_uv (snd s4)"
    using b8 b7 b6 b5 by simp
  have i: "buf_index bd' = buf_index (snd s6)"
    using b8 b7 by simp
  have m1: "UseProgram p \<in> set (calls gl')"
    by (simp add: c8 c7 c6 c5 c4 c3 c2 c1)
  have m2: "BindBuffer ARRAY_BUFFER (buf_vertex bd') \<in> set (calls gl')"
    by (simp add: v c8 c7 c6 c5 c4 c3)
  have m3: "BindBuffer ARRAY_BUFFER (buf_uv bd') \<in> set (calls gl')"
    by (simp add: u c8 c7 c6 c5)
  have m4: "BindBuffer ELEMENT_ARRAY_BUFFER (buf_index bd') \<in> set (calls gl')"
    by (simp add: i c8 c7)
  have m5: "BlendFuncSeparate b1 b2 b3 b4 \<in> set (calls gl')"
    by (simp add: c8 c7)
  have m6: "last (calls gl')
         = (case clippingContextBufferForMask renderer of
              None \<Rightarrow> Uniform4f (Some (uniformBaseColorLocation ss))
                        (col_R baseColor) (col_G baseColor) (col_B baseColor) (col_A baseColor)
            | Some c \<Rightarrow> Uniform4f (Some (uniformBaseColorLocation ss))
                        (rect_x (layoutBounds c) * 2 - 1) (rect_y (layoutBounds c) * 2 - 1)
                        (getRight (layoutBounds c) * 2 - 1) (getBottom (layoutBounds c) * 2 - 1))"
    unfolding c8 by simp
  show ?thesis
    using m1 m2 m3 m4 m5 m6 p t sl by blast
qed

lemma draw_steps_ok:
  assumes p: "p \<noteq> JsZero" and t: "textureId \<noteq> JsZero"
    and u: "\<forall>s. \<exists>s'. setupUniforms renderer ss baseColor m s = (None, s')"
  shows "\<exists>gl' bd'. steps
     [sendStep [UseProgram p],
      ensureVertex d,
      (\<lambda>s. sendStep
         [BindBuffer ARRAY_BUFFER (buf_vertex (snd s)),
          BufferData ARRAY_BUFFER (FloatData vertexArray),
          EnableVertexAttribArray (attributePositionLocation ss),
          VertexAttribPointer (attributePositionLocation ss)] s),
      ensureUv d,
      (\<lambda>s. sendStep
         [BindBuffer ARRAY_BUFFER (buf_uv (snd s)),
          BufferData ARRAY_BUFFER (FloatData uvArray),
          EnableVertexAttribArray (attributeTexCoordLocation ss),
          VertexAttribPointer (attributeTexCoordLocation ss),
          ActiveTexture 0, BindTexture textureId,
          Uniform1i (Some (samplerTexture0Location ss)) 0] s),
      ensureIndex d,
      (\<lambda>s. sendStep
         [BindBuffer ELEMENT_ARRAY_BUFFER (buf_index (snd s)),
          BufferData ELEMENT_ARRAY_BUFFER (IndexData indexArray),
          BlendFuncSeparate b1 b2 b3 b4] s),
      setupUniforms renderer ss baseColor m]
     (gl1, bd) = (None, (gl', bd'))"
proof -
  obtain s1 where 1: "sendStep [UseProgram p] (gl1, bd) = (None, s1)"
    using p by (simp add: sendStep_None)
  from ensureVertex_step[of d s1] obtain g2 bd2 where
    2: "ensureVertex d s1 = (None, (g2, bd2))" and v: "buf_vertex bd2 \<noteq> JsZero"
    by blast
  obtain s3 where 3: "sendStep
         [BindBuffer ARRAY_BUFFER (buf_vertex bd2),
          BufferData ARRAY_BUFFER (FloatData vertexArray),
          EnableVertexAttribArray (attributePositionLocation ss),
          VertexAttribPointer (attributePositionLocation ss)] (g2, bd2) = (None, s3)"
    using v by (simp add: sendStep_None)
  from ensureUv_step[of d s3] obtain g4 bd4 where
    4: "ensureUv d s3 = (None, (g4, bd4))" and uv: "buf_uv bd4 \<noteq> JsZero"
    by blast
  obtain s5 where 5: "sendStep
         [BindBuffer ARRAY_BUFFER (buf_uv bd4),
          BufferData ARRAY_BUFFER (FloatData uvArray),
          EnableVertexAttribArray (attributeTexCoordLocation ss),
          VertexAttribPointer (attributeTexCoordLocation ss),
          ActiveTexture 0, BindTexture textureId,
          Uniform1i (Some (samplerTexture0Location ss)) 0] (g4, bd4) = (None, s5)"
    using uv t by (simp add: sendStep_None)
  from ensureIndex_step[of d s5] obtain g6 bd6 where
    6: "ensureIndex d s5 = (None, (g6, bd6))" and ix: "buf_index bd6 \<noteq> JsZero"
    by blast
  obtain s7 where 7: "sendStep
         [BindBuffer ELEMENT_ARRAY_BUFFER (buf_index bd6),
          BufferData ELEMENT_ARRAY_BUFFER (IndexData indexArray),
          BlendFuncSeparate b1 b2 b3 b4] (g6, bd6) = (None, s7)"
    using ix by (simp add: sendStep_None)
  from u obtain s8 where 8: "setupUniforms renderer ss baseColor m s7 = (None, s8)"
    by blast
  show ?thesis
    using 1 2 3 4 5 6 7 8 by (cases s8) simp
qed

lemma shaderContent_key:
  "fst (shaderContent a b c colorBlendMode) \<in> ShaderNames_value ` set ShaderNames_keys"
  by (cases colorBlendMode) (simp_all add: shaderContent_def ShaderNames_keys_def)

lemma setupShaderProgram_Inr:
  assumes r: "setupShaderProgram d sh gl renderer textureId vertexCount vertexArray indexArray uvArray
       bufData opacity colorBlendMode baseColor isPremultiplied matrix4x4 invertedMask
       = Inr (sh', gl', bufData', msgs)"
    and c: "shaderContent (clippingContextBufferForMask renderer \<noteq> None)
        (clippingContextBufferForDraw renderer \<noteq> None) invertedMask colorBlendMode
        = (key, b1, b2, b3, b4)"
  shows "\<exists>sets gl1 msgs1 ss.
      (case shaderSets sh of None \<Rightarrow> generateShaders d gl | Some s \<Rightarrow> (Inr s, gl, []))
        = (Inr sets, gl1, msgs1)
      \<and> sh' = sh\<lparr>shaderSets := Some sets\<rparr> \<and> sets key = Some ss
      \<and> msgs = (if \<not> isPremultiplied then [''NoPremultipliedAlpha is not allowed''] else []) @ msgs1
      \<and> steps
     [sendStep [UseProgram (shaderProgram ss)],
      ensureVertex d,
      (\<lambda>s. sendStep
         [BindBuffer ARRAY_BUFFER (buf_vertex (snd s)),
          BufferData ARRAY_BUFFER (FloatData vertexArray),
          EnableVertexAttribArray (attributePositionLocation ss),
          VertexAttribPointer (attributePositionLocation ss)] s),
      ensureUv d,
      (\<lambda>s. sendStep
         [BindBuffer ARRAY_BUFFER (buf_uv (snd s)),
          BufferData ARRAY_BUFFER (FloatData uvArray),
          EnableVertexAttribArray (attributeTexCoordLocation ss),
          VertexAttribPointer (attributeTexCoordLocation ss),
          ActiveTexture 0, BindTexture textureId,
          Uniform1i (Some (samplerTexture0Location ss)) 0] s),
      ensureIndex d,
      (\<lambda>s. sendStep
         [BindBuffer ELEMENT_ARRAY_BUFFER (buf_index (snd s)),
          BufferData ELEMENT_ARRAY_BUFFER (IndexData indexArray),
          BlendFuncSeparate b1 b2 b3 b4] s),
      setupUniforms renderer ss baseColor matrix4x4]
     (gl1, bufData) = (None, (gl', bufData'))"
proof -
  obtain res gl1 msgs1 where g:
    "(case shaderSets sh of None \<Rightarrow> generateShaders d gl | Some s \<Rightarrow> (Inr s, gl, []))
       = (res, gl1, msgs1)"
    by (cases "case shaderSets sh of None \<Rightarrow> generateShaders d gl | Some s \<Rightarrow> (Inr s, gl, [])") auto
  from r g obtain sets where res: "res = Inr sets"
    by (cases res) (simp_all add: setupShaderProgram_def Let_def)
  from r g c res obtain ss where ss: "sets key = Some ss"
    by (cases "sets key") (simp_all add: setupShaderProgram_def Let_def del: steps.simps)
  let ?run = "steps
     [sendStep [UseProgram (shaderProgram ss)],
      ensureVertex d,
      (\<lambda>s. sendStep
         [BindBuffer ARRAY_BUFFER (buf_vertex (snd s)),
          BufferData ARRAY_BUFFER (FloatData vertexArray),
          EnableVertexAttribArray (attributePositionLocation ss),
          VertexAttribPointer (attributePositionLocation ss)] s),
      ensureUv d,
      (\<lambda>s. sendStep
         [BindBuffer ARRAY_BUFFER (buf_uv (snd s)),
          BufferData ARRAY_BUFFER (FloatData uvArray),
          EnableVertexAttribArray (attributeTexCoordLocation ss),
          VertexAttribPointer (attributeTexCoordLocation ss),
          ActiveTexture 0, BindTexture textureId,
          Uniform1i (Some (samplerTexture0Location ss)) 0] s),
      ensureIndex d,
      (\<lambda>s. sendStep
         [BindBuffer ELEMENT_ARRAY_BUFFER (buf_index (snd s)),
          BufferData ELEMENT_ARRAY_BUFFER (IndexData indexArray),
          BlendFuncSeparate b1 b2 b3 b4] s),
      setupUniforms renderer ss baseColor matrix4x4]
     (gl1, bufData)"
  obtain e g2 bd2 where st: "?run = (e, (g2, bd2))"
    by (cases ?run) auto
  from r g c res ss st have "e = None \<and> sh' = sh\<lparr>shaderSets := Some sets\<rparr> \<and> g2 = gl' \<and> bd2 = bufData'
      \<and> msgs = (if \<not> isPremultiplied then [''NoPremultipliedAlpha is not allowed''] else []) @ msgs1"
    by (cases e) (simp_all add: setupShaderProgram_def Let_def del: steps.simps)
  then show ?thesis using g res ss st by simp
qed


lemma setupShaderProgram_returns:
  assumes g: "shaderSets sh = None \<longrightarrow> (\<forall>n. createOk d n) \<and> (\<forall>index. variantBuilds d index)"
    and s: "\<forall>sets. shaderSets sh = Some sets \<longrightarrow>
          (\<exists>ss. sets (fst (shaderContent (clippingContextBufferForMask renderer \<noteq> None)
                          (clippingContextBufferForDraw renderer \<noteq> None) invertedMask colorBlendMode))
                  = Some ss \<and> shaderProgram ss \<noteq> JsZero)"
    and t: "textureId \<noteq> JsZero" and cb: "getColorBuffer renderer \<noteq> JsZero"
    and m: "\<forall>c. clippingContextBufferForMask renderer = Some c \<longrightarrow>
            getChannelFlagAsColor (clippingManager renderer) (layoutChannelNo c) \<noteq> None"
    and dr: "\<forall>c. clippingContextBufferForDraw renderer = Some c \<longrightarrow>
            getChannelFlagAsColor (clippingManager renderer) (layoutChannelNo c) \<noteq> None"
  shows "\<exists>sh' gl' bufData' msgs.
     setupShaderProgram d sh gl renderer textureId vertexCount vertexArray indexArray uvArray
       bufData opacity colorBlendMode baseColor isPremultiplied matrix4x4 invertedMask
       = Inr (sh', gl', bufData', msgs)"
proof -
  obtain key b1 b2 b3 b4 where c:
    "shaderContent (clippingContextBufferForMask renderer \<noteq> None)
        (clippingContextBufferForDraw renderer \<noteq> None) invertedMask colorBlendMode = (key, b1, b2, b3, b4)"
    by (cases "shaderContent (clippingContextBufferForMask renderer \<noteq> None)
        (clippingContextBufferForDraw renderer \<noteq> None) invertedMask colorBlendMode") auto
  have "\<exists>sets gl1 msgs1 ss.
      (case shaderSets sh of None \<Rightarrow> generateShaders d gl | Some s \<Rightarrow> (Inr s, gl, []))
        = (Inr sets, gl1, msgs1) \<and> sets key = Some ss \<and> shaderProgram ss \<noteq> JsZero"
  proof (cases "shaderSets sh")
    case None
    with g have ok: "\<forall>n. createOk d n" and b: "\<forall>index\<in>set ShaderNames_keys. variantBuilds d index"
      by simp_all
    from generateShaders_from_builds[OF ok b, of Map.empty gl] obtain sets gl1 where
      r: "generateShaders d gl = (Inr sets, gl1, [])"
         "dom sets = ShaderNames_value ` set ShaderNames_keys"
         "\<forall>k ss. sets k = Some ss \<longrightarrow> isObject (shaderProgram ss)"
      unfolding generateShaders_def by auto
    have "key \<in> dom sets"
      using shaderContent_key[of "clippingContextBufferForMask renderer \<noteq> None"
          "clippingContextBufferForDraw renderer \<noteq> None" invertedMask colorBlendMode] c r(2)
      by simp
    then obtain ss where ss: "sets key = Some ss" by auto
    from r(3) ss have "isObject (shaderProgram ss)" by blast
    then have "shaderProgram ss \<noteq> JsZero" by (auto simp: isObject_def)
    with None r(1) ss show ?thesis by simp
  next
    case (Some sets)
    with s c show ?thesis by auto
  qed
  then obtain sets gl1 msgs1 ss where
    gen: "(case shaderSets sh of None \<Rightarrow> generateShaders d gl | Some s \<Rightarrow> (Inr s, gl, []))
        = (Inr sets, gl1, msgs1)"
    and ss: "sets key = Some ss" and p: "shaderProgram ss \<noteq> JsZero"
    by blast
  have u: "\<forall>s. \<exists>s'. setupUniforms renderer ss baseColor matrix4x4 s = (None, s')"
    using setupUniforms_ok[OF m dr cb] by blast
  from draw_steps_ok[OF p t u, of d vertexArray uvArray indexArray b1 b2 b3 b4 gl1 bufData]
  obtain gl' bd' where st: "steps
     [sendStep [UseProgram (shaderProgram ss)],
      ensureVertex d,
      (\<lambda>s. sendStep
         [BindBuffer ARRAY_BUFFER (buf_vertex (snd s)),
          BufferData ARRAY_BUFFER (FloatData vertexArray),
          EnableVertexAttribArray (attributePositionLocation ss),
          VertexAttribPointer (attributePositionLocation ss)] s),
      ensureUv d,
      (\<lambda>s. sendStep
         [BindBuffer ARRAY_BUFFER (buf_uv (snd s)),
          BufferData ARRAY_BUFFER (FloatData uvArray),
          EnableVertexAttribArray (attributeTexCoordLocation ss),
          VertexAttribPointer (attributeTexCoordLocation ss),
          ActiveTexture 0, BindTexture textureId,
          Uniform1i (Some (samplerTexture0Location ss)) 0] s),
      ensureIndex d,
      (\<lambda>s. sendStep
         [BindBuffer ELEMENT_ARRAY_BUFFER (buf_index (snd s)),
          BufferData ELEMENT_ARRAY_BUFFER (IndexData indexArray),
          BlendFuncSeparate b1 b2 b3 b4] s),
      setupUniforms renderer ss baseColor matrix4x4]
     (gl1, bufData) = (None, (gl', bd'))"
    by blast
  show ?thesis
    using gen c ss st by (simp add: setupShaderProgram_def Let_def del: steps.simps)
qed

lemma setupShaderProgram_commands:
  assumes r: "setupShaderProgram d sh gl renderer textureId vertexCount vertexArray indexArray uvArray
       bufData opacity colorBlendMode baseColor isPremultiplied matrix4x4 invertedMask
       = Inr (sh', gl', bufData', msgs)"
  shows "\<exists>sets shaderSet. shaderSets sh' = Some sets
     \<and> sets (fst (shaderContent (clippingContextBufferForMask renderer \<noteq> None)
                     (clippingContextBufferForDraw renderer \<noteq> None) invertedMask colorBlendMode))
         = Some shaderSet
     \<and> UseProgram (shaderProgram shaderSet) \<in> set (calls gl')
     \<and> BindBuffer ARRAY_BUFFER (buf_vertex bufData') \<in> set (calls gl')
     \<and> BindBuffer ARRAY_BUFFER (buf_uv bufData') \<in> set (calls gl')
     \<and> BindBuffer ELEMENT_ARRAY_BUFFER (buf_index bufData') \<in> set (calls gl')
     \<and> blendCall (snd (shaderContent (clippingContextBufferForMask renderer \<noteq> None)
                           (clippingContextBufferForDraw renderer \<noteq> None)
                           invertedMask colorBlendMode)) \<in> set (calls gl')
     \<and> last (calls gl')
         = (case clippingContextBufferForMask renderer of
              None \<Rightarrow> Uniform4f (Some (uniformBaseColorLocation shaderSet))
                        (col_R baseColor) (col_G baseColor) (col_B baseColor) (col_A baseColor)
            | Some c \<Rightarrow> Uniform4f (Some (uniformBaseColorLocation shaderSet))
                        (rect_x (layoutBounds c) * 2 - 1) (rect_y (layoutBounds c) * 2 - 1)
                        (getRight (layoutBounds c) * 2 - 1) (getBottom (layoutBounds c) * 2 - 1))
     \<and> (\<forall>c. clippingContextBufferForMask renderer = Some c \<longrightarrow>
            getChannelFlagAsColor (clippingManager renderer) (layoutChannelNo c) \<noteq> None)
     \<and> (\<forall>c. clippingContextBufferForMask renderer = None
              \<and> clippingContextBufferForDraw renderer = Some c \<longrightarrow>
            getChannelFlagAsColor (clippingManager renderer) (layoutChannelNo c) \<noteq> None)"
proof -
  obtain key b1 b2 b3 b4 where c:
    "shaderContent (clippingContextBufferForMask renderer \<noteq> None)
        (clippingContextBufferForDraw renderer \<noteq> None) invertedMask colorBlendMode = (key, b1, b2, b3, b4)"
    by (cases "shaderContent (clippingContextBufferForMask renderer \<noteq> None)
        (clippingContextBufferForDraw renderer \<noteq> None) invertedMask colorBlendMode") auto
  from setupShaderProgram_Inr[OF r c] obtain sets gl1 ss where
    sh': "sh' = sh\<lparr>shaderSets := Some sets\<rparr>" and ss: "sets key = Some ss"
    and st: "steps
     [sendStep [UseProgram (shaderProgram ss)],
      ensureVertex d,
      (\<lambda>s. sendStep
         [BindBuffer ARRAY_BUFFER (buf_vertex (snd s)),
          BufferData ARRAY_BUFFER (FloatData vertexArray),
          EnableVertexAttribArray (attributePositionLocation ss),
          VertexAttribPointer (attributePositionLocation ss)] s),
      ensureUv d,
      (\<lambda>s. sendStep
         [BindBuffer ARRAY_BUFFER (buf_uv (snd s)),
          BufferData ARRAY_BUFFER (FloatData uvArray),
          EnableVertexAttribArray (attributeTexCoordLocation ss),
          VertexAttribPointer (attributeTexCoordLocation ss),
          ActiveTexture 0, BindTexture textureId,
          Uniform1i (Some (samplerTexture0Location ss)) 0] s),
      ensureIndex d,
      (\<lambda>s. sendStep
         [BindBuffer ELEMENT_ARRAY_BUFFER (buf_index (snd s)),
          BufferData ELEMENT_ARRAY_BUFFER (IndexData indexArray),
          BlendFuncSeparate b1 b2 b3 b4] s),
      setupUniforms renderer ss baseColor matrix4x4]
     (gl1, bufData) = (None, (gl', bufData'))"
    by blast
  note f = draw_steps_None[OF st]
  have b: "blendCall (snd (shaderContent (clippingContextBufferForMask renderer \<noteq> None)
                           (clippingContextBufferForDraw renderer \<noteq> None)
                           invertedMask colorBlendMode)) = BlendFuncSeparate b1 b2 b3 b4"
    unfolding c blendCall_def by simp
  have k: "fst (shaderContent (clippingContextBufferForMask renderer \<noteq> None)
                     (clippingContextBufferForDraw renderer \<noteq> None) invertedMask colorBlendMode) = key"
    unfolding c by simp
  have s1: "shaderSets sh' = Some sets" using sh' by simp
  show ?thesis
    unfolding b k using s1 ss f by blast
qed

lemma ShaderNames_keys_all: "index \<in> set ShaderNames_keys"
  by (cases index) (simp_all add: ShaderNames_keys_def)

lemma generateShaders_fails:
  assumes ok: "\<forall>n. createOk d n" and nb: "\<not> variantBuilds d index"
  shows "\<exists>gl' msgs. generateShaders d gl = (Inl TypeError, gl', msgs)
           \<and> msgs \<noteq> []
           \<and> (last msgs = ''Vertex shader compile error!''
              \<or> last msgs = ''Failed to link program: {0}'')
           \<and> drawCommands gl' = drawCommands gl"
  unfolding generateShaders_def
  using generateShaders_from_fails[OF ok, of ShaderNames_keys Map.empty gl] nb ShaderNames_keys_all
  by blast

lemma setupShaderProgram_generation_fails:
  assumes ok: "\<forall>n. createOk d n" and nb: "\<not> variantBuilds d index" and n: "shaderSets sh = None"
  shows "\<exists>gl' msgs.
     setupShaderProgram d sh gl renderer textureId vertexCount vertexArray indexArray uvArray
       bufData opacity colorBlendMode baseColor isPremultiplied matrix4x4 invertedMask
       = Inl (TypeError, sh, gl', bufData, msgs)
     \<and> msgs \<noteq> []
     \<and> (last msgs = ''Vertex shader compile error!''
        \<or> last msgs = ''Failed to link program: {0}'')
     \<and> drawCommands gl' = drawCommands gl"
proof -
  from generateShaders_fails[OF ok nb, of gl] obtain gl' msgs where
    g: "generateShaders d gl = (Inl TypeError, gl', msgs)" "msgs \<noteq> []"
       "last msgs = ''Vertex shader compile error!'' \<or> last msgs = ''Failed to link program: {0}''"
       "drawCommands gl' = drawCommands gl"
    by blast
  have "setupShaderProgram d sh gl renderer textureId vertexCount vertexArray indexArray uvArray
       bufData opacity colorBlendMode baseColor isPremultiplied matrix4x4 invertedMask
       = Inl (TypeError, sh, gl', bufData,
              (if \<not> isPremultiplied then [''NoPremultipliedAlpha is not allowed''] else []) @ msgs)"
    using n g(1) by (simp add: setupShaderProgram_def Let_def del: steps.simps)
  moreover have "last ((if \<not> isPremultiplied then [''NoPremultipliedAlpha is not allowed''] else []) @ msgs)
       = last msgs"
    using g(2) by simp
  ultimately show ?thesis using g(2,3,4) by auto
qed

lemma drawMesh_form:
  "\<exists>tex col. drawMesh d sh gl renderer textureNo indexCount vertexCount indexArray vertexArray uvArray
       opacity colorBlendMode invertedMask
     = (case setupShaderProgram d sh
               (emit [if isCulling renderer then EnableCullFace else DisableCullFace, FrontFaceCCW] gl)
               renderer tex vertexCount vertexArray indexArray uvArray (bufferData renderer)
               opacity colorBlendMode col (isPremultipliedAlpha renderer) (getMvpMatrix renderer)
               invertedMask of
          Inl (e, sh', gl2, bufData', msgs) \<Rightarrow>
            Inl (e, sh', gl2, renderer\<lparr>bufferData := bufData'\<rparr>, msgs)
        | Inr (sh', gl2, bufData', msgs) \<Rightarrow>
            Inr (sh', emit [DrawElements indexCount, UseProgram JsNull] gl2,
                 renderer\<lparr>bufferData := bufData',
                          clippingContextBufferForDraw := None,
                          clippingContextBufferForMask := None\<rparr>,
                 msgs))"
  unfolding drawMesh_def Let_def by (intro exI) (rule refl)

lemma drawMesh_generation_fails:
  assumes ok: "\<forall>n. createOk d n" and nb: "\<not> variantBuilds d index" and n: "shaderSets sh = None"
  shows "\<exists>gl' msgs.
     drawMesh d sh gl renderer textureNo indexCount vertexCount indexArray vertexArray uvArray
       opacity colorBlendMode invertedMask
       = Inl (TypeError, sh, gl', renderer, msgs)
     \<and> msgs \<noteq> []
     \<and> (last msgs = ''Vertex shader compile error!''
        \<or> last msgs = ''Failed to link program: {0}'')
     \<and> drawCommands gl' = drawCommands gl"
proof -
  let ?gl1 = "emit [if isCulling renderer then EnableCullFace else DisableCullFace, FrontFaceCCW] gl"
  from drawMesh_form[of d sh gl renderer textureNo indexCount vertexCount indexArray vertexArray
      uvArray opacity colorBlendMode invertedMask]
  obtain tex col where
    f: "drawMesh d sh gl renderer textureNo indexCount vertexCount indexArray vertexArray uvArray
       opacity colorBlendMode invertedMask
     = (case setupShaderProgram d sh ?gl1
               renderer tex vertexCount vertexArray indexArray uvArray (bufferData renderer)
               opacity colorBlendMode col (isPremultipliedAlpha renderer) (getMvpMatrix renderer)
               invertedMask of
          Inl (e, sh', gl2, bufData', msgs) \<Rightarrow>
            Inl (e, sh', gl2, renderer\<lparr>bufferData := bufData'\<rparr>, msgs)
        | Inr (sh', gl2, bufData', msgs) \<Rightarrow>
            Inr (sh', emit [DrawElements indexCount, UseProgram JsNull] gl2,
                 renderer\<lparr>bufferData := bufData',
                          clippingContextBufferForDraw := None,
                          clippingContextBufferForMask := None\<rparr>,
                 msgs))"
    by blast
  from setupShaderProgram_generation_fails[OF ok nb n, of ?gl1 renderer tex vertexCount
      vertexArray indexArray uvArray "bufferData renderer" opacity colorBlendMode col
      "isPremultipliedAlpha renderer" "getMvpMatrix renderer" invertedMask]
  obtain gl' msgs where
    s: "setupShaderProgram d sh ?gl1 renderer tex vertexCount vertexArray indexArray uvArray
          (bufferData renderer) opacity colorBlendMode col (isPremultipliedAlpha renderer)
          (getMvpMatrix renderer) invertedMask
        = Inl (TypeError, sh, gl', bufferData renderer, msgs)"
    and m: "msgs \<noteq> []"
      "last msgs = ''Vertex shader compile error!'' \<or> last msgs = ''Failed to link program: {0}''"
    and q: "drawCommands gl' = drawCommands ?gl1"
    by blast
  have "drawMesh d sh gl renderer textureNo indexCount vertexCount indexArray vertexArray uvArray
       opacity colorBlendMode invertedMask = Inl (TypeError, sh, gl', renderer, msgs)"
    unfolding f s by simp
  moreover have "drawCommands ?gl1 = drawCommands gl"
    by (simp add: drawCommands_def calls_emit)
  ultimately show ?thesis using m q by auto
qed


section \<open>setupShaderProgram: shader variant and blend function\<close>

text \<open>
  Claim C7. In the mask pass the shader is SetupMask with the blend tuple (ZERO,
  ONE\_MINUS\_SRC\_COLOR, ZERO, ONE\_MINUS\_SRC\_ALPHA). Otherwise the blend tuple is (ONE,
  ONE\_MINUS\_SRC\_ALPHA, ONE, ONE\_MINUS\_SRC\_ALPHA) for normal, (ONE, ONE, ZERO, ONE) for
  additive and (DST\_COLOR, ONE\_MINUS\_SRC\_ALPHA, ZERO, ONE) for multiplicative blending,
  and the shader is the unmasked one of the blend mode without a clipping context for the
  draw, the masked one with such a context, and the masked inverted one when the
  inversion flag is set as well. Whenever \<open>setupShaderProgram\<close> returns, it has called
  \<open>useProgram\<close> with the program of the selected shader set and \<open>blendFuncSeparate\<close> with
  the selected tuple.
\<close>

theorem shaderContent_table:
  "shaderContent True forMasked invertedMask colorBlendMode
     = (ShaderNames_value SetupMask, ZERO, ONE_MINUS_SRC_COLOR, ZERO, ONE_MINUS_SRC_ALPHA)
   \<and> snd (shaderContent False forMasked invertedMask CubismBlendMode_Normal)
     = (ONE, ONE_MINUS_SRC_ALPHA, ONE, ONE_MINUS_SRC_ALPHA)
   \<and> snd (shaderContent False forMasked invertedMask CubismBlendMode_Additive)
     = (ONE, ONE, ZERO, ONE)
   \<and> snd (shaderContent False forMasked invertedMask CubismBlendMode_Multiplicative)
     = (DST_COLOR, ONE_MINUS_SRC_ALPHA, ZERO, ONE)
   \<and> fst (shaderContent False False invertedMask CubismBlendMode_Normal)
     = ShaderNames_value NormalPremultipliedAlpha
   \<and> fst (shaderContent False False invertedMask CubismBlendMode_Additive)
     = ShaderNames_value AddPremultipliedAlpha
   \<and> fst (shaderContent False False invertedMask CubismBlendMode_Multiplicative)
     = ShaderNames_value MultPremultipliedAlpha
   \<and> fst (shaderContent False True False CubismBlendMode_Normal)
     = ShaderNames_value NormalMaskedPremultipliedAlpha
   \<and> fst (shaderContent False True False CubismBlendMode_Additive)
     = ShaderNames_value AddMaskedPremultipliedAlpha
   \<and> fst (shaderContent False True False CubismBlendMode_Multiplicative)
     = ShaderNames_value MultMaskedPremultipliedAlpha
   \<and> fst (shaderContent False True True CubismBlendMode_Normal)
     = ShaderNames_value NomralMaskedInvertedPremultipliedAlpha
   \<and> fst (shaderContent False True True CubismBlendMode_Additive)
     = ShaderNames_value AddMaskedPremultipliedAlphaInverted
   \<and> fst (shaderContent False True True CubismBlendMode_Multiplicative)
     = ShaderNames_value MultMaskedPremultipliedAlphaInverted
   \<and> (setupShaderProgram d sh gl renderer textureId vertexCount vertexArray indexArray uvArray
          bufData opacity mode baseColor isPremultiplied matrix4x4 inverted
        = Inr (sh', gl', bufData', msgs)
      \<longrightarrow> (\<exists>sets shaderSet. shaderSets sh' = Some sets
             \<and> sets (fst (shaderContent (clippingContextBufferForMask renderer \<noteq> None)
                             (clippingContextBufferForDraw renderer \<noteq> None) inverted mode))
                 = Some shaderSet
             \<and> UseProgram (shaderProgram shaderSet) \<in> set (calls gl'))
          \<and> blendCall (snd (shaderContent (clippingContextBufferForMask renderer \<noteq> None)
                               (clippingContextBufferForDraw renderer \<noteq> None) inverted mode))
              \<in> set (calls gl'))"
proof -
  have run: "(\<exists>sets shaderSet. shaderSets sh' = Some sets
             \<and> sets (fst (shaderContent (clippingContextBufferForMask renderer \<noteq> None)
                             (clippingContextBufferForDraw renderer \<noteq> None) inverted mode))
                 = Some shaderSet
             \<and> UseProgram (shaderProgram shaderSet) \<in> set (calls gl'))
          \<and> blendCall (snd (shaderContent (clippingContextBufferForMask renderer \<noteq> None)
                               (clippingContextBufferForDraw renderer \<noteq> None) inverted mode))
              \<in> set (calls gl')"
    if r: "setupShaderProgram d sh gl renderer textureId vertexCount vertexArray indexArray uvArray
          bufData opacity mode baseColor isPremultiplied matrix4x4 inverted
        = Inr (sh', gl', bufData', msgs)"
    using setupShaderProgram_commands[OF r] by blast
  show ?thesis
    using run by (simp add: shaderContent_def)
qed

lemma exampleSetup_returns:
  "\<exists>sh' gl' bufData' msgs.
     setupShaderProgram workingDriver \<lparr>shaderSets = None\<rparr> gl exampleRenderer JsNull vertexCount
       vertexArray indexArray uvArray bufData opacity colorBlendMode baseColor isPremultiplied
       matrix4x4 invertedMask
     = Inr (sh', gl', bufData', msgs)"
  by (rule setupShaderProgram_returns)
     (simp_all add: workingDriver_def exampleRenderer_def variantBuilds_def builds_def)

text \<open>
  Claim C7, an instance: a normal, unclipped draw on a driver where every program builds
  returns and has sent \<open>blendFuncSeparate(ONE, ONE_MINUS_SRC_ALPHA, ONE, ONE_MINUS_SRC_ALPHA)\<close>.
\<close>

theorem shaderContent_table_witness:
  "\<not> isl exampleSetup
   \<and> BlendFuncSeparate ONE ONE_MINUS_SRC_ALPHA ONE ONE_MINUS_SRC_ALPHA
       \<in> set (calls (fst (snd (projr exampleSetup))))"
proof -
  have n: "\<not> isl exampleSetup"
    unfolding exampleSetup_def
    using exampleSetup_returns[of "\<lparr>calls = [], nextObject = 1\<rparr>" 3 "[0, 0, 1, 0, 0, 1]" "[0, 1, 2]"
        "[0, 0, 1, 0, 0, 1]" "bufferData exampleRenderer" 1 CubismBlendMode_Normal
        "\<lparr>col_R = 1, col_G = 1, col_B = 1, col_A = 1\<rparr>" True CubismMatrix44_new False]
    by auto
  have r: "setupShaderProgram workingDriver \<lparr>shaderSets = None\<rparr> \<lparr>calls = [], nextObject = 1\<rparr>
       exampleRenderer JsNull 3 [0, 0, 1, 0, 0, 1] [0, 1, 2] [0, 0, 1, 0, 0, 1]
       (bufferData exampleRenderer) 1 CubismBlendMode_Normal
       \<lparr>col_R = 1, col_G = 1, col_B = 1, col_A = 1\<rparr> True CubismMatrix44_new False
     = Inr (fst (projr exampleSetup), fst (snd (projr exampleSetup)),
            fst (snd (snd (projr exampleSetup))), snd (snd (snd (projr exampleSetup))))"
    unfolding exampleSetup_def[symmetric] using n by simp
  have "blendCall (snd (shaderContent (clippingContextBufferForMask exampleRenderer \<noteq> None)
                               (clippingContextBufferForDraw exampleRenderer \<noteq> None)
                               False CubismBlendMode_Normal))
          \<in> set (calls (fst (snd (projr exampleSetup))))"
    using shaderContent_table[where d = workingDriver and sh = "\<lparr>shaderSets = None\<rparr>"
      and gl = "\<lparr>calls = [], nextObject = 1\<rparr>" and renderer = exampleRenderer
      and textureId = JsNull and vertexCount = 3 and vertexArray = "[0, 0, 1, 0, 0, 1]"
      and indexArray = "[0, 1, 2]" and uvArray = "[0, 0, 1, 0, 0, 1]"
      and bufData = "bufferData exampleRenderer" and opacity = 1
      and mode = CubismBlendMode_Normal
      and baseColor = "\<lparr>col_R = 1, col_G = 1, col_B = 1, col_A = 1\<rparr>"
      and isPremultiplied = True and ?matrix4x4.0 = CubismMatrix44_new and inverted = False
      and sh' = "fst (projr exampleSetup)" and gl' = "fst (snd (projr exampleSetup))"
      and bufData' = "fst (snd (snd (projr exampleSetup)))"
      and msgs = "snd (snd (snd (projr exampleSetup)))"] r
    by blast
  then show ?thesis
    using n by (simp add: exampleRenderer_def shaderContent_def blendCall_def)
qed

section \<open>setupShaderProgram: the flag isPremultipliedAlpha\<close>





section \<open>Shader programs that fail to compile or link\<close>

text \<open>
  Claim C9, as the code has it. Take a context that creates every object, and a variant
  whose vertex or fragment shader does not compile or whose program does not link.
  \<open>loadShaderProgram\<close> on the sources of the variant logs an error and returns the handle
  \<open>0\<close>. Nothing tests the handle: the step of \<open>generateShaders\<close> for the variant passes it
  to \<open>getAttribLocation\<close>, which raises a TypeError, and leaves the context and the log as
  \<open>loadShaderProgram\<close> left them. So every \<open>drawMesh\<close> on a shader object whose sets are
  not generated yet raises a TypeError, whichever variant it selects: the shader object
  stays without sets and the renderer as it was, the last message logged is an error of
  \<open>loadShaderProgram\<close>, and neither \<open>useProgram\<close> nor \<open>drawElements\<close> is sent.
\<close>

theorem failed_shader_raises:
  assumes "\<forall>n. createOk d n"
    and "variantSources index = (v, f)"
    and "\<not> (compileStatus d VERTEX_SHADER v \<and> compileStatus d FRAGMENT_SHADER f \<and> linkStatus d v f)"
    and "shaderSets sh = None"
  shows "(\<exists>glv' msg. loadShaderProgram d glv v f = (Inr JsZero, glv', [msg])
            \<and> (msg = ''Vertex shader compile error!'' \<or> msg = ''Failed to link program: {0}'')
            \<and> generateShader d index glv = (Inl TypeError, glv', [msg]))
     \<and> (\<exists>gl' msgs.
           drawMesh d sh gl renderer textureNo indexCount vertexCount indexArray vertexArray uvArray
             opacity colorBlendMode invertedMask
           = Inl (TypeError, sh, gl', renderer, msgs)
           \<and> msgs \<noteq> []
           \<and> (last msgs = ''Vertex shader compile error!''
              \<or> last msgs = ''Failed to link program: {0}'')
           \<and> drawCommands gl' = drawCommands gl)"
proof -
  have nb: "\<not> variantBuilds d index"
    using assms(2,3) by (simp add: variantBuilds_def builds_def)
  from loadShaderProgram_ok[OF assms(1), of glv v f] assms(3) obtain glv' msg where
    l: "loadShaderProgram d glv v f = (Inr JsZero, glv', [msg])"
       "msg = ''Vertex shader compile error!'' \<or> msg = ''Failed to link program: {0}''"
    by (auto simp: builds_def)
  have "generateShader d index glv = (Inl TypeError, glv', [msg])"
    using generateShader_fails[OF assms(1) nb, of glv] assms(2) l(1) by simp
  with l have 1: "\<exists>glv' msg. loadShaderProgram d glv v f = (Inr JsZero, glv', [msg])
            \<and> (msg = ''Vertex shader compile error!'' \<or> msg = ''Failed to link program: {0}'')
            \<and> generateShader d index glv = (Inl TypeError, glv', [msg])"
    by blast
  from drawMesh_generation_fails[OF assms(1) nb assms(4)] 1 show ?thesis
    by blast
qed

text \<open>
  Claim C9, an instance: on the driver that compiles no shader, loading the unmasked
  program gives the handle \<open>0\<close>, the step of \<open>generateShaders\<close> for the variant raises, and
  so does the example draw, which sends no drawing command and logs an error.
\<close>

theorem failed_shader_raises_witness:
  "variantSources NormalPremultipliedAlpha = (vertexShaderSrc, fragmentShaderSrcPremultipliedAlpha)
   \<and> \<not> compileStatus failingDriver VERTEX_SHADER vertexShaderSrc
   \<and> fst (loadShaderProgram failingDriver \<lparr>calls = [], nextObject = 1\<rparr>
             vertexShaderSrc fragmentShaderSrcPremultipliedAlpha) = Inr JsZero
   \<and> fst (generateShader failingDriver NormalPremultipliedAlpha \<lparr>calls = [], nextObject = 1\<rparr>)
       = Inl TypeError
   \<and> isl exampleDraw
   \<and> drawCommands (fst (snd (snd (projl exampleDraw)))) = []
   \<and> snd (snd (snd (snd (projl exampleDraw)))) \<noteq> []"
proof -
  have h1: "\<forall>n. createOk failingDriver n"
    by (simp add: failingDriver_def)
  have h2: "variantSources NormalPremultipliedAlpha
      = (vertexShaderSrc, fragmentShaderSrcPremultipliedAlpha)"
    by (simp add: variantSources_def)
  have h3: "\<not> (compileStatus failingDriver VERTEX_SHADER vertexShaderSrc
        \<and> compileStatus failingDriver FRAGMENT_SHADER fragmentShaderSrcPremultipliedAlpha
        \<and> linkStatus failingDriver vertexShaderSrc fragmentShaderSrcPremultipliedAlpha)"
    by (simp add: failingDriver_def)
  have h4: "shaderSets \<lparr>shaderSets = None\<rparr> = None"
    by simp
  note t = failed_shader_raises[OF h1 h2 h3 h4, of "\<lparr>calls = [], nextObject = 1\<rparr>"
      "\<lparr>calls = [], nextObject = 1\<rparr>" exampleRenderer 0 3 3 "[0, 1, 2]" "[0, 0, 1, 0, 0, 1]"
      "[0, 0, 1, 0, 0, 1]" 1 CubismBlendMode_Normal False, folded exampleDraw_def]
  from t obtain gl' msgs where
    d: "exampleDraw = Inl (TypeError, \<lparr>shaderSets = None\<rparr>, gl', exampleRenderer, msgs)"
       "msgs \<noteq> []" "drawCommands gl' = drawCommands \<lparr>calls = [], nextObject = 1\<rparr>"
    by blast
  from t have l: "fst (loadShaderProgram failingDriver \<lparr>calls = [], nextObject = 1\<rparr>
             vertexShaderSrc fragmentShaderSrcPremultipliedAlpha) = Inr JsZero"
    and g: "fst (generateShader failingDriver NormalPremultipliedAlpha \<lparr>calls = [], nextObject = 1\<rparr>)
       = Inl TypeError"
    by auto
  have c: "\<not> compileStatus failingDriver VERTEX_SHADER vertexShaderSrc"
    by (simp add: failingDriver_def)
  have i: "isl exampleDraw" unfolding d(1) by simp
  have q: "drawCommands (fst (snd (snd (projl exampleDraw)))) = []"
    unfolding d(1) using d(3) by (simp add: drawCommands_def)
  have m: "snd (snd (snd (snd (projl exampleDraw)))) \<noteq> []"
    unfolding d(1) using d(2) by simp
  show ?thesis
    by (intro conjI) (fact h2 c l g i q m)+
qed

text \<open>
  Claim C9 as stated fails: on the driver that compiles no shader, the example draw is
  neither guarded nor skipped. It raises a TypeError, and the shader object is left
  without its sets, so that the next draw generates the shaders again.
\<close>

theorem failed_shader_draw_raises:
  "isl exampleDraw
   \<and> fst (projl exampleDraw) = TypeError
   \<and> shaderSets (fst (snd (projl exampleDraw))) = None"
proof -
  have ok: "\<forall>n. createOk failingDriver n"
    by (simp add: failingDriver_def)
  have nb: "\<not> variantBuilds failingDriver SetupMask"
    by (simp add: variantBuilds_def builds_def failingDriver_def)
  from drawMesh_generation_fails[OF ok nb, of "\<lparr>shaderSets = None\<rparr>"
      "\<lparr>calls = [], nextObject = 1\<rparr>" exampleRenderer 0 3 3 "[0, 1, 2]" "[0, 0, 1, 0, 0, 1]"
      "[0, 0, 1, 0, 0, 1]" 1 CubismBlendMode_Normal False, folded exampleDraw_def]
  obtain gl' msgs where
    d: "exampleDraw = Inl (TypeError, \<lparr>shaderSets = None\<rparr>, gl', exampleRenderer, msgs)"
    by auto
  show ?thesis unfolding d by simp
qed

end
